theory Spec2Isabelle
  imports Complex_Main "HOL-Library.Word"
begin

section \<open>JavaScript values used by the pipeline\<close>

text \<open>
  The program is TypeScript running in a browser (\<^verbatim>\<open>src/lib/daydream.ts\<close> and the
  \<^verbatim>\<open>StudioRecorder\<close> component). Its functions are asynchronous and talk to
  the outside only through awaited calls (edge functions, \<^verbatim>\<open>fetch\<close>, the TUS
  client, \<^verbatim>\<open>MediaRecorder\<close>, \<^verbatim>\<open>fixWebmDuration\<close>) and through callbacks.
  Each function is embedded as a HOL function that takes what the outside answers (a
  script of outcomes) and returns the list of effects it performs, in order, together
  with the value it resolves with (\<open>Inr\<close>) or the error it rejects with (\<open>Inl\<close>).
  Every awaited outside call is taken to settle; optional callbacks
  (\<^verbatim>\<open>onProgress?.(...)\<close>) are taken to be supplied and not to throw, so that each
  invocation shows in the list of effects. \<^verbatim>\<open>console.log\<close> output is left out;
  \<^verbatim>\<open>console.warn\<close> and \<^verbatim>\<open>console.error\<close> are recorded with the
  constant text of their first argument (without interpolated values and without
  characters outside ASCII).
\<close>

type_synonym byte = "8 word"

text \<open>JavaScript truthiness of an optional string: \<^verbatim>\<open>undefined\<close>, \<^verbatim>\<open>null\<close> and
  the empty string are falsy.\<close>

fun truthy :: "string option \<Rightarrow> bool" where
  "truthy None = False"
| "truthy (Some s) = (s \<noteq> [])"

text \<open>\<^verbatim>\<open>a || d\<close> for an optional string \<open>a\<close> and a string \<open>d\<close>.\<close>

fun or_else :: "string option \<Rightarrow> string \<Rightarrow> string" where
  "or_else None d = d"
| "or_else (Some s) d = (if s = [] then d else s)"

text \<open>\<^verbatim>\<open>s.includes(t)\<close>: \<open>t\<close> occurs in \<open>s\<close> as a contiguous run of characters.\<close>

fun str_includes :: "string \<Rightarrow> string \<Rightarrow> bool" where
  "str_includes [] t = (t = [])"
| "str_includes (c # cs) t = (take (length t) (c # cs) = t \<or> str_includes cs t)"

text \<open>
  A JavaScript number as far as the progress reports need it. Finite values are kept as
  rationals (the rounding of IEEE doubles is not modelled; nothing below depends on
  it); a division by zero gives \<^verbatim>\<open>NaN\<close> or \<^verbatim>\<open>Infinity\<close> as in JavaScript.
\<close>

datatype js_number = Num rat | NaN | Infinity

definition js_div :: "nat \<Rightarrow> nat \<Rightarrow> js_number" where
  "js_div a b =
     (if b = 0 then (if a = 0 then NaN else Infinity) else Num (of_nat a / of_nat b))"

text \<open>
  An error value as the \<^verbatim>\<open>catch\<close> blocks read it: \<^verbatim>\<open>error?.message\<close>,
  \<^verbatim>\<open>error?.error?.error\<close> and \<^verbatim>\<open>JSON.stringify(error)\<close>. The first two are
  strings when present (the values thrown are the \<^verbatim>\<open>FunctionsError\<close> objects of
  the backend client, or \<^verbatim>\<open>Error\<close> objects).
\<close>

record thrown =
  message :: "string option"
  inner_error :: "string option"
  json_text :: string

text \<open>
  The errors the pipeline rejects with. The source raises plain \<^verbatim>\<open>Error\<close> objects
  told apart by their message; each constructor stands for one \<^verbatim>\<open>throw\<close> of the
  source and carries the interpolated parts of its message. The names follow section 7
  of the specification where it names the failure.
  \<^item> \<open>UnsupportedCaptureError\<close>: "captureStream is not supported on this video element"
  \<^item> \<open>NoSupportedFormatError\<close>: "No supported video MIME type found"
  \<^item> \<open>RecordingNotStartedError\<close>: "Recording not started"
  \<^item> \<open>StopTimeoutError\<close>: "Recording stop timed out"
  \<^item> \<open>EmptyRecordingError\<close>: "No video data recorded - the recording may have failed"
  \<^item> \<open>UndersizedRecordingError n\<close>: "Recording too small (n bytes) - video may be corrupted"
  \<^item> \<open>TicketRequestError (Some m)\<close>: "Failed to request upload: m";
    \<open>TicketRequestError None\<close>: "Failed to get asset ID from server"
  \<^item> \<open>UploadError NoUploadSucceeded\<close>: "Upload failed";
    \<open>UploadError (PutRejected st txt)\<close>: "Upload failed: st - txt"
  \<^item> \<open>StatusCheckError m\<close>: "Failed to check asset status: m"
  \<^item> \<open>ProcessingFailedError m\<close>: "Video processing failed: m. The video file may be
    invalid or unsupported."
  \<^item> \<open>ProcessingTimeoutError\<close>: "Video processing timed out after 5 minutes. Please try
    recording again."
  \<^item> \<open>MissingPlaybackIdError\<close>: "Video processed but playback ID is missing"
  \<^item> \<open>NoCaptureElementError\<close>: "No video or canvas element found in StudioRecorder children"
  \<^item> \<open>CaptureNotSupportedError\<close>: "Video capture not supported on this browser"
  \<^item> \<open>NoStreamDataError\<close>: "No stream data returned"
  \<^item> \<open>Rethrown e\<close>: an error value of the outside, thrown on unchanged
    (\<^verbatim>\<open>if (error) throw error\<close>, or an exception of a browser call)
\<close>

datatype upload_failure = NoUploadSucceeded | PutRejected nat string

datatype js_error =
    UnsupportedCaptureError
  | NoSupportedFormatError
  | RecordingNotStartedError
  | StopTimeoutError
  | EmptyRecordingError
  | UndersizedRecordingError nat
  | TicketRequestError "string option"
  | UploadError upload_failure
  | StatusCheckError string
  | ProcessingFailedError string
  | ProcessingTimeoutError
  | MissingPlaybackIdError
  | NoCaptureElementError
  | CaptureNotSupportedError
  | NoStreamDataError
  | Rethrown thrown

text \<open>The answer of \<^verbatim>\<open>supabase.functions.invoke\<close>: \<^verbatim>\<open>{ data, error }\<close>.\<close>

record 'a invoke_result =
  data :: "'a option"
  error :: "thrown option"

subsection \<open>What the caller is told\<close>

record upload_progress =
  phase :: string
  step :: "string option"
  progress :: "js_number option"

record upload_done_result =
  dr_assetId :: string
  dr_playbackId :: "string option"
  dr_rawUploadedFileUrl :: "string option"

record upload_result =
  ur_assetId :: string
  ur_playbackId :: string
  ur_downloadUrl :: "string option"
  ur_rawUploadedFileUrl :: "string option"

text \<open>
  The effects a function performs, in the order it performs them:
  \<^item> \<open>Invoke f\<close>: a call of the edge function \<open>f\<close>;
  \<^item> \<open>TusUpload endpoint filename filetype\<close>: \<^verbatim>\<open>new tus.Upload(...).start()\<close>;
  \<^item> \<open>FetchPut url contentType\<close>: the direct \<^verbatim>\<open>fetch(url, { method: 'PUT' })\<close>;
  \<^item> \<open>Wait ms\<close>: \<^verbatim>\<open>await new Promise(resolve => setTimeout(resolve, ms))\<close>;
  \<^item> \<open>OnProgress\<close>, \<open>OnUploadDone\<close>, \<open>OnRecordingStart\<close>, \<open>OnError\<close>: the callbacks;
  \<^item> \<open>ConsoleWarn\<close>, \<open>ConsoleError\<close>: the console.
\<close>

datatype event =
    Invoke string
  | TusUpload string string string
  | FetchPut string string
  | Wait nat
  | OnProgress upload_progress
  | OnUploadDone upload_done_result
  | OnRecordingStart
  | OnError js_error
  | ConsoleWarn string
  | ConsoleError string

section \<open>Daydream stream creation and the initial parameter update\<close>

text \<open>
  \<^verbatim>\<open>updateDaydreamPrompts\<close> builds the request body from the parameters and
  invokes the edge function \<^verbatim>\<open>daydream-prompt\<close>; it throws the error the call
  answers with, if any. The body is not needed below: the call is the effect
  \<open>Invoke ''daydream-prompt''\<close>, and \<open>answer\<close> is the error of the call, if any.
\<close>

definition updateDaydreamPrompts :: "thrown option \<Rightarrow> event list \<times> (thrown + unit)" where
  "updateDaydreamPrompts answer =
     ([Invoke ''daydream-prompt''],
      (case answer of None \<Rightarrow> Inr () | Some e \<Rightarrow> Inl e))"

text \<open>The test of the \<^verbatim>\<open>catch\<close> block of \<^verbatim>\<open>updateDaydreamPromptsWithRetry\<close>.\<close>

definition isNotReadyError :: "thrown \<Rightarrow> bool" where
  "isNotReadyError e =
     (let errorStr = json_text e;
          errorMessage =
            (if truthy (message e) then the (message e)
             else if truthy (inner_error e) then the (inner_error e)
             else errorStr)
      in str_includes errorMessage ''not ready'' \<or>
         str_includes errorMessage ''Stream not ready'' \<or>
         str_includes errorStr ''not ready'' \<or>
         str_includes errorStr ''Stream not ready'')"

text \<open>
  The \<^verbatim>\<open>for\<close> loop of \<^verbatim>\<open>updateDaydreamPromptsWithRetry\<close>, from the iteration
  \<open>attempt\<close> on. \<open>answers k\<close> is what the call of iteration \<open>k\<close> answers. The
  \<^verbatim>\<open>catch\<close> block takes every error of the loop body.
\<close>

function retry_loop ::
  "(nat \<Rightarrow> thrown option) \<Rightarrow> nat \<Rightarrow> nat \<Rightarrow> nat \<Rightarrow> event list \<times> (js_error + unit)" where
  "retry_loop answers maxRetries delayMs attempt =
     (if attempt < maxRetries then
        (let waited = (if attempt > 0 then [Wait delayMs] else []);
             (called, r) = updateDaydreamPrompts (answers attempt)
         in case r of
              Inr u \<Rightarrow> (waited @ called, Inr ())
            | Inl e \<Rightarrow>
                if isNotReadyError e then
                  (let (later, r') = retry_loop answers maxRetries delayMs (attempt + 1)
                   in (waited @ called @ later, r'))
                else
                  (waited @ called @
                     [ConsoleError ''Non-retryable error updating stream params:'',
                      ConsoleWarn ''Stream will use default parameters''],
                   Inr ()))
      else ([ConsoleWarn ''Failed to update initial stream params after retries''], Inr ()))"
  by pat_completeness auto
termination
  by (relation "measure (\<lambda>(answers, maxRetries, delayMs, attempt). maxRetries - attempt)") auto

declare retry_loop.simps [simp del]

text \<open>\<^verbatim>\<open>updateDaydreamPromptsWithRetry\<close>; its only call leaves \<^verbatim>\<open>maxRetries\<close> and
  \<^verbatim>\<open>delayMs\<close> at their defaults, 10 and 1000.\<close>

definition updateDaydreamPromptsWithRetry ::
  "(nat \<Rightarrow> thrown option) \<Rightarrow> nat \<Rightarrow> nat \<Rightarrow> event list \<times> (js_error + unit)" where
  "updateDaydreamPromptsWithRetry answers maxRetries delayMs =
     retry_loop answers maxRetries delayMs 0"

text \<open>
  \<^verbatim>\<open>createDaydreamStream\<close>. \<open>answer\<close> is the answer of the edge function
  \<^verbatim>\<open>daydream-stream\<close>, \<open>initialParams\<close> says whether the optional argument was
  given, \<open>answers\<close> scripts the background update. The update is started and not
  awaited: what it does happens after the function has returned, and is given as a
  third component (the background effects, with the \<^verbatim>\<open>.catch\<close> handler's log when
  the update rejects).
\<close>

record DaydreamStream =
  stream_id :: string
  output_playback_id :: string
  whip_url :: string

definition createDaydreamStream ::
  "DaydreamStream invoke_result \<Rightarrow> bool \<Rightarrow> (nat \<Rightarrow> thrown option) \<Rightarrow>
   event list \<times> (js_error + DaydreamStream) \<times> event list" where
  "createDaydreamStream answer initialParams answers =
     (case error answer of
        Some e \<Rightarrow> ([Invoke ''daydream-stream''], Inl (Rethrown e), [])
      | None \<Rightarrow>
          (case data answer of
             None \<Rightarrow> ([Invoke ''daydream-stream''], Inl NoStreamDataError, [])
           | Some stream \<Rightarrow>
               (if initialParams then
                  (let (bg, r) = updateDaydreamPromptsWithRetry answers 10 1000
                   in ([Invoke ''daydream-stream''], Inr stream,
                       bg @ (case r of Inl err \<Rightarrow> [ConsoleError ''Background param update failed:'']
                                      | Inr u \<Rightarrow> [])))
                else ([Invoke ''daydream-stream''], Inr stream, []))))"

section \<open>The uploader\<close>

text \<open>The upload ticket: the \<^verbatim>\<open>data\<close> of the edge function \<^verbatim>\<open>studio-request-upload\<close>.\<close>

record upload_data =
  ud_assetId :: "string option"
  ud_tusEndpoint :: "string option"
  ud_uploadUrl :: "string option"
  ud_playbackId :: "string option"
  ud_rawUploadedFileUrl :: "string option"

text \<open>The processing status: the \<^verbatim>\<open>data\<close> of \<^verbatim>\<open>studio-asset-status\<close>;
  \<open>ad_error_message\<close> is \<^verbatim>\<open>assetData?.error?.message\<close>.\<close>

record asset_data =
  ad_status :: "string option"
  ad_playbackId :: "string option"
  ad_downloadUrl :: "string option"
  ad_error_message :: "string option"
  ad_progress :: "rat option"

text \<open>A \<^verbatim>\<open>Blob\<close>: its bytes and its \<^verbatim>\<open>type\<close>.\<close>

record blob =
  bytes :: "byte list"
  blob_type :: string

definition blob_size :: "blob \<Rightarrow> nat" where
  "blob_size b = length (bytes b)"

text \<open>
  What the outside answers during one upload:
  \<^item> \<open>ticket\<close>: the answer of \<^verbatim>\<open>studio-request-upload\<close>;
  \<^item> \<open>tus\<close>: the run of the TUS client, the \<^verbatim>\<open>(bytesUploaded, bytesTotal)\<close> pairs it
    reports and then \<^verbatim>\<open>onSuccess\<close> or \<^verbatim>\<open>onError\<close> (with \<^verbatim>\<open>error.message\<close>);
  \<^item> \<open>put\<close>: the direct write, a response (\<^verbatim>\<open>ok\<close>, \<^verbatim>\<open>status\<close>, and the body text,
    \<open>None\<close> when \<^verbatim>\<open>text()\<close> rejects) or the exception \<^verbatim>\<open>fetch\<close> raises;
  \<^item> \<open>polls k\<close>: the answer of the call of \<^verbatim>\<open>studio-asset-status\<close> made when
    \<^verbatim>\<open>attempts\<close> is \<open>k\<close>.
\<close>

datatype tus_end = TusSuccess | TusError "string option"

record tus_run =
  tus_progress :: "(nat \<times> nat) list"
  tus_end :: tus_end

datatype put_outcome = PutResponse bool nat "string option" | PutThrows thrown

record upload_env =
  ticket :: "upload_data invoke_result"
  tus :: tus_run
  put :: put_outcome
  polls :: "nat \<Rightarrow> asset_data invoke_result"

subsection \<open>Step 1: request the upload ticket\<close>

definition request_upload :: "upload_env \<Rightarrow> event list \<times> (js_error + upload_data)" where
  "request_upload env =
     (case error (ticket env) of
        Some uploadError \<Rightarrow>
          ([Invoke ''studio-request-upload'', ConsoleError ''Failed to request upload URL:''],
           Inl (TicketRequestError (Some (or_else (message uploadError) ''Unknown error''))))
      | None \<Rightarrow>
          (case data (ticket env) of
             None \<Rightarrow>
               ([Invoke ''studio-request-upload'', ConsoleError ''Invalid upload response:''],
                Inl (TicketRequestError None))
           | Some uploadData \<Rightarrow>
               if \<not> truthy (ud_assetId uploadData) then
                 ([Invoke ''studio-request-upload'', ConsoleError ''Invalid upload response:''],
                  Inl (TicketRequestError None))
               else ([Invoke ''studio-request-upload''], Inr uploadData)))"

subsection \<open>Step 2: TUS resumable upload, or the PUT fallback\<close>

definition uploading :: "js_number option \<Rightarrow> event" where
  "uploading p = OnProgress \<lparr>phase = ''uploading'', step = Some ''Uploading...'', progress = p\<rparr>"

text \<open>The \<^verbatim>\<open>if (uploadData.tusEndpoint)\<close> block: its effects, and \<^verbatim>\<open>uploaded\<close> after it.\<close>

definition tus_upload :: "upload_env \<Rightarrow> upload_data \<Rightarrow> blob \<Rightarrow> string \<Rightarrow> event list \<times> bool" where
  "tus_upload env uploadData b filename =
     (if truthy (ud_tusEndpoint uploadData) then
        ([uploading None,
          TusUpload (the (ud_tusEndpoint uploadData)) filename
            (or_else (Some (blob_type b)) ''video/webm'')] @
         map (\<lambda>(bytesUploaded, bytesTotal). uploading (Some (js_div bytesUploaded bytesTotal)))
           (tus_progress (tus env)) @
         (case tus_end (tus env) of
            TusSuccess \<Rightarrow> []
          | TusError m \<Rightarrow> [ConsoleError ''TUS upload failed:'', ConsoleError ''TUS upload failed:'']),
         tus_end (tus env) = TusSuccess)
      else ([], False))"

text \<open>The \<^verbatim>\<open>if (!uploaded && uploadData?.uploadUrl)\<close> block, entered with
  \<^verbatim>\<open>uploaded\<close> false: its effects, and the error it throws or \<^verbatim>\<open>uploaded\<close> after it.
  The call of \<^verbatim>\<open>fetch\<close> stands in no \<^verbatim>\<open>try\<close>: an exception it raises leaves
  \<^verbatim>\<open>uploadToLivepeer\<close> as it is.\<close>

definition put_upload :: "upload_env \<Rightarrow> upload_data \<Rightarrow> blob \<Rightarrow> event list \<times> (js_error + bool)" where
  "put_upload env uploadData b =
     (if truthy (ud_uploadUrl uploadData) then
        (case put env of
           PutThrows e \<Rightarrow>
             ([uploading None,
               FetchPut (the (ud_uploadUrl uploadData)) (or_else (Some (blob_type b)) ''video/webm'')],
              Inl (Rethrown e))
         | PutResponse ok st txt \<Rightarrow>
             if \<not> ok then
               ([uploading None,
                 FetchPut (the (ud_uploadUrl uploadData)) (or_else (Some (blob_type b)) ''video/webm''),
                 ConsoleError ''PUT upload failed:''],
                Inl (UploadError (PutRejected st (case txt of None \<Rightarrow> ''Unknown error'' | Some t \<Rightarrow> t))))
             else
               ([uploading None,
                 FetchPut (the (ud_uploadUrl uploadData)) (or_else (Some (blob_type b)) ''video/webm'')],
                Inr True))
      else ([], Inr False))"

definition upload_file ::
  "upload_env \<Rightarrow> upload_data \<Rightarrow> blob \<Rightarrow> string \<Rightarrow> event list \<times> (js_error + unit)" where
  "upload_file env uploadData b filename =
     (let (tus_events, uploaded) = tus_upload env uploadData b filename
      in if uploaded then (tus_events, Inr ())
         else
           (case put_upload env uploadData b of
              (put_events, Inl err) \<Rightarrow> (tus_events @ put_events, Inl err)
            | (put_events, Inr uploaded') \<Rightarrow>
                if uploaded' then (tus_events @ put_events, Inr ())
                else (tus_events @ put_events, Inl (UploadError NoUploadSucceeded))))"

subsection \<open>Step 3: poll for asset readiness\<close>

definition maxAttempts :: nat where
  "maxAttempts = 300"

definition status_of :: "asset_data option \<Rightarrow> string option" where
  "status_of assetData = (case assetData of None \<Rightarrow> None | Some a \<Rightarrow> ad_status a)"

text \<open>\<^verbatim>\<open>assetData?.progress || (attempts / maxAttempts)\<close>, capped by
  \<^verbatim>\<open>Math.min(progress, 99)\<close>, in the progress report of one poll.\<close>

definition processing :: "nat \<Rightarrow> asset_data option \<Rightarrow> event" where
  "processing attempts assetData =
     (let reported = (case assetData of None \<Rightarrow> None | Some a \<Rightarrow> ad_progress a);
          p = (case reported of
                 None \<Rightarrow> of_nat attempts / of_nat maxAttempts
               | Some q \<Rightarrow> if q = 0 then of_nat attempts / of_nat maxAttempts else q)
      in OnProgress
           \<lparr>phase = ''processing'',
            step = Some (''Processing: '' @ or_else (status_of assetData) ''waiting'' @ ''...''),
            progress = Some (Num (min p 99))\<rparr>)"

definition upload_done :: "upload_data \<Rightarrow> event" where
  "upload_done uploadData =
     OnUploadDone
       \<lparr>dr_assetId = the (ud_assetId uploadData),
        dr_playbackId = ud_playbackId uploadData,
        dr_rawUploadedFileUrl = ud_rawUploadedFileUrl uploadData\<rparr>"

text \<open>
  The \<^verbatim>\<open>while (attempts < maxAttempts)\<close> loop, entered with the given values of
  \<^verbatim>\<open>attempts\<close>, \<^verbatim>\<open>uploadDoneCalled\<close> and \<^verbatim>\<open>assetData\<close>. It ends with the
  error thrown inside it, or with \<^verbatim>\<open>assetData\<close> as it is when the loop is left
  (by \<^verbatim>\<open>break\<close>, or because the attempts are used up).
\<close>

function poll_loop ::
  "(nat \<Rightarrow> asset_data invoke_result) \<Rightarrow> upload_data \<Rightarrow> nat \<Rightarrow> bool \<Rightarrow> asset_data option \<Rightarrow>
   event list \<times> (js_error + asset_data option)" where
  "poll_loop answers uploadData attempts uploadDoneCalled assetData =
     (if attempts < maxAttempts then
        (case error (answers attempts) of
           Some e \<Rightarrow>
             ([Invoke ''studio-asset-status'', ConsoleError ''Error checking asset status:''],
              Inl (StatusCheckError (or_else (message e) ''Unknown error'')))
         | None \<Rightarrow>
             (let assetData' = data (answers attempts);
                  status = status_of assetData';
                  notify = (\<not> uploadDoneCalled \<and> status = Some ''processing'');
                  events =
                    [Invoke ''studio-asset-status''] @
                    (if notify then [upload_done uploadData] else []) @
                    [processing attempts assetData']
              in if status = Some ''ready'' then (events, Inr assetData')
                 else if status = Some ''failed'' \<or> status = Some ''error'' then
                   (events @ [ConsoleError ''Asset processing failed:''],
                    Inl (ProcessingFailedError
                          (or_else (case assetData' of None \<Rightarrow> None | Some a \<Rightarrow> ad_error_message a)
                             ''Unknown processing error'')))
                 else
                   (let (later, r) =
                          poll_loop answers uploadData (attempts + 1)
                            (uploadDoneCalled \<or> notify) assetData'
                    in (events @ [Wait 1000] @ later, r))))
      else ([], Inr assetData))"
  by pat_completeness auto
termination
  by (relation "measure (\<lambda>(answers, uploadData, attempts, uploadDoneCalled, assetData).
                   maxAttempts - attempts)") auto

declare poll_loop.simps [simp del]

text \<open>The checks after the loop, and the result.\<close>

definition finish_upload ::
  "upload_data \<Rightarrow> asset_data option \<Rightarrow> event list \<times> (js_error + upload_result)" where
  "finish_upload uploadData assetData =
     (if status_of assetData \<noteq> Some ''ready'' then
        ([ConsoleError ''Asset processing timeout. Last status:''], Inl ProcessingTimeoutError)
      else if \<not> truthy (case assetData of None \<Rightarrow> None | Some a \<Rightarrow> ad_playbackId a) then
        ([ConsoleError ''Asset ready but no playbackId:''], Inl MissingPlaybackIdError)
      else
        ([OnProgress \<lparr>phase = ''complete'', step = Some ''Complete!'', progress = Some (Num 100)\<rparr>],
         Inr \<lparr>ur_assetId = the (ud_assetId uploadData),
              ur_playbackId = the (ad_playbackId (the assetData)),
              ur_downloadUrl = ad_downloadUrl (the assetData),
              ur_rawUploadedFileUrl = ud_rawUploadedFileUrl uploadData\<rparr>))"

definition poll_asset :: "upload_env \<Rightarrow> upload_data \<Rightarrow> event list \<times> (js_error + upload_result)" where
  "poll_asset env uploadData =
     (case poll_loop (polls env) uploadData 0 False None of
        (events, Inl err) \<Rightarrow> (events, Inl err)
      | (events, Inr assetData) \<Rightarrow>
          (let (last_events, r) = finish_upload uploadData assetData
           in (events @ last_events, r)))"

subsection \<open>The whole of \<^verbatim>\<open>uploadToLivepeer\<close>\<close>

definition uploadToLivepeer ::
  "upload_env \<Rightarrow> blob \<Rightarrow> string \<Rightarrow> event list \<times> (js_error + upload_result)" where
  "uploadToLivepeer env b filename =
     (case request_upload env of
        (e1, Inl err) \<Rightarrow> (e1, Inl err)
      | (e1, Inr uploadData) \<Rightarrow>
          (case upload_file env uploadData b filename of
             (e2, Inl err) \<Rightarrow> (e1 @ e2, Inl err)
           | (e2, Inr u) \<Rightarrow>
               (let (e3, r) = poll_asset env uploadData in (e1 @ e2 @ e3, r))))"

text \<open>What the claims observe in the list of effects.\<close>

definition polls_performed :: "event list \<Rightarrow> nat" where
  "polls_performed events = length (filter (\<lambda>e. e = Invoke ''studio-asset-status'') events)"

fun is_upload_done :: "event \<Rightarrow> bool" where
  "is_upload_done (OnUploadDone r) = True"
| "is_upload_done e = False"

section \<open>The recorder\<close>

text \<open>
  The element the recording is taken from: whether it has a \<^verbatim>\<open>captureStream\<close>
  method, and whether the method yields a stream.
\<close>

record video_element =
  has_captureStream :: bool
  yields_stream :: bool

text \<open>
  The \<^verbatim>\<open>MediaRecorder\<close> objects of the page: \<open>created\<close> counts those constructed
  so far (the next one gets this number as its handle), \<open>recording\<close> holds the handles
  of those in state \<^verbatim>\<open>recording\<close>, the active encoders.
\<close>

record browser =
  created :: nat
  recording :: "nat set"

text \<open>The fields of the class \<^verbatim>\<open>VideoRecorder\<close>.\<close>

record VideoRecorder =
  videoElement :: video_element
  recorder :: "nat option"
  chunks :: "blob list"
  startTime :: "int option"
  mimeType :: string

definition new_VideoRecorder :: "video_element \<Rightarrow> VideoRecorder" where
  "new_VideoRecorder el =
     \<lparr>videoElement = el, recorder = None, chunks = [], startTime = None, mimeType = []\<rparr>"

record RecordingResult =
  rr_blob :: blob
  rr_durationMs :: int
  rr_mimeType :: string

text \<open>\<^verbatim>\<open>new Blob(parts, { type })\<close>: the parts' bytes, one after the other.\<close>

definition new_Blob :: "blob list \<Rightarrow> string \<Rightarrow> blob" where
  "new_Blob parts t = \<lparr>bytes = concat (map bytes parts), blob_type = t\<rparr>"

definition mimeCandidates :: "string list" where
  "mimeCandidates =
     [''video/webm;codecs=vp9,opus'',
      ''video/webm;codecs=vp8,opus'',
      ''video/webm;codecs=vp9'',
      ''video/webm;codecs=vp8'',
      ''video/webm'']"

text \<open>
  \<^verbatim>\<open>VideoRecorder.start()\<close>. \<open>isTypeSupported\<close> is
  \<^verbatim>\<open>MediaRecorder.isTypeSupported\<close>, \<open>now\<close> is \<^verbatim>\<open>Date.now()\<close>. The result is the
  error thrown, if any, with the fields and the page's encoders as the call leaves them.
\<close>

definition VideoRecorder_start ::
  "(string \<Rightarrow> bool) \<Rightarrow> int \<Rightarrow> VideoRecorder \<Rightarrow> browser \<Rightarrow>
   js_error option \<times> VideoRecorder \<times> browser" where
  "VideoRecorder_start isTypeSupported now vr br =
     (if \<not> (has_captureStream (videoElement vr) \<and> yields_stream (videoElement vr)) then
        (Some UnsupportedCaptureError, vr, br)
      else
        (let found = (case find isTypeSupported mimeCandidates of None \<Rightarrow> [] | Some m \<Rightarrow> m);
             vr1 = vr\<lparr>mimeType := found\<rparr>
         in if found = [] then (Some NoSupportedFormatError, vr1, br)
            else
              (None,
               vr1\<lparr>recorder := Some (created br), chunks := [], startTime := Some now\<rparr>,
               br\<lparr>created := created br + 1,
                  recording := insert (created br) (recording br)\<rparr>)))"

text \<open>The \<^verbatim>\<open>ondataavailable\<close> handler; \<open>d\<close> is \<^verbatim>\<open>e.data\<close>.\<close>

definition ondataavailable :: "blob option \<Rightarrow> VideoRecorder \<Rightarrow> VideoRecorder" where
  "ondataavailable d vr =
     (case d of
        None \<Rightarrow> vr
      | Some b \<Rightarrow> if blob_size b > 0 then vr\<lparr>chunks := chunks vr @ [b]\<rparr> else vr)"

text \<open>
  What the outside does during \<^verbatim>\<open>VideoRecorder.stop()\<close>:
  \<^item> \<open>signal\<close>: the encoder fires \<^verbatim>\<open>onstop\<close> so many milliseconds after it was asked to
    (\<open>Stops ms\<close>; the 5000 ms timer wins unless \<open>ms < 5000\<close>), or never
    (\<open>NeverStops\<close>), or \<^verbatim>\<open>requestData()\<close> throws because the encoder is no longer
    recording (\<open>Throws e\<close>);
  \<^item> \<open>flushed\<close>: the data of the \<^verbatim>\<open>dataavailable\<close> events dispatched while
    \<^verbatim>\<open>stop()\<close> waits;
  \<^item> \<open>now\<close>: \<^verbatim>\<open>Date.now()\<close> once the wait is over;
  \<^item> \<open>fixWebmDuration b d\<close>: the blob the library \<^verbatim>\<open>fix-webm-duration\<close> answers
    for the blob \<open>b\<close> and the duration \<open>d\<close>, or \<open>None\<close> when it fails.
\<close>

datatype stop_signal = Stops nat | NeverStops | Throws thrown

record stop_env =
  signal :: stop_signal
  flushed :: "blob option list"
  now :: int
  fixWebmDuration :: "blob \<Rightarrow> int \<Rightarrow> blob option"

text \<open>
  \<^verbatim>\<open>VideoRecorder.stop()\<close>: the effects, the result or the error thrown, and the
  fields and the page's encoders as the call leaves them. \<^verbatim>\<open>!this.startTime\<close> also
  holds for the timestamp 0.
\<close>

definition VideoRecorder_stop ::
  "stop_env \<Rightarrow> VideoRecorder \<Rightarrow> browser \<Rightarrow>
   event list \<times> (js_error + RecordingResult) \<times> VideoRecorder \<times> browser" where
  "VideoRecorder_stop env vr br =
     (if recorder vr = None \<or> startTime vr = None \<or> startTime vr = Some 0 then
        ([], Inl RecordingNotStartedError, vr, br)
      else
        (case signal env of
           Throws e \<Rightarrow> ([], Inl (Rethrown e), vr, br)
         | NeverStops \<Rightarrow>
             ([], Inl StopTimeoutError, fold ondataavailable (flushed env) vr,
              br\<lparr>recording := recording br - {the (recorder vr)}\<rparr>)
         | Stops ms \<Rightarrow>
             (let vr' = fold ondataavailable (flushed env) vr;
                  br' = br\<lparr>recording := recording br - {the (recorder vr)}\<rparr>
              in if \<not> ms < 5000 then ([], Inl StopTimeoutError, vr', br')
                 else
                   (let durationMs = now env - the (startTime vr)
                    in if length (chunks vr') = 0 then ([], Inl EmptyRecordingError, vr', br')
                       else
                         (let b = new_Blob (chunks vr')
                                    (or_else (Some (mimeType vr')) ''video/webm'')
                          in if blob_size b < 1000 then
                               ([], Inl (UndersizedRecordingError (blob_size b)), vr', br')
                             else
                               (case fixWebmDuration env b durationMs of
                                  Some fixed \<Rightarrow>
                                    ([],
                                     Inr \<lparr>rr_blob = fixed, rr_durationMs = durationMs,
                                          rr_mimeType = mimeType vr'\<rparr>,
                                     vr', br')
                                | None \<Rightarrow>
                                    ([ConsoleError
                                        ''Failed to fix WebM duration (proceeding anyway):''],
                                     Inr \<lparr>rr_blob = b, rr_durationMs = durationMs,
                                          rr_mimeType = mimeType vr'\<rparr>,
                                     vr', br')))))))"

subsection \<open>The component \<^verbatim>\<open>StudioRecorder\<close>: \<^verbatim>\<open>startRecording\<close>\<close>

text \<open>The refs of the component.\<close>

record StudioRecorder =
  recorderRef :: "VideoRecorder option"
  recordStartTimeRef :: "int option"
  isRecordingRef :: bool
  isProcessingRef :: bool

text \<open>
  What the outside answers during \<^verbatim>\<open>startRecording\<close>: the \<^verbatim>\<open>video\<close> element
  found among the children, or else the \<^verbatim>\<open>canvas\<close>, if any;
  \<^verbatim>\<open>MediaRecorder.isTypeSupported\<close>; \<^verbatim>\<open>Date.now()\<close> as read by
  \<^verbatim>\<open>VideoRecorder.start\<close> and then by \<^verbatim>\<open>startRecording\<close>.
\<close>

record start_env =
  element :: "video_element option"
  isTypeSupported :: "string \<Rightarrow> bool"
  now_recorder :: int
  now_component :: int

text \<open>The \<^verbatim>\<open>catch\<close> block of \<^verbatim>\<open>startRecording\<close>.\<close>

definition start_failed ::
  "js_error \<Rightarrow> StudioRecorder \<Rightarrow> browser \<Rightarrow> event list \<times> StudioRecorder \<times> browser" where
  "start_failed err refs br =
     ([ConsoleError ''StudioRecorder: Failed to start recording'', OnError err],
      refs\<lparr>isRecordingRef := False, recorderRef := None, recordStartTimeRef := None\<rparr>,
      br)"

text \<open>
  \<^verbatim>\<open>startRecording\<close> is an \<^verbatim>\<open>async\<close> function with one \<^verbatim>\<open>await\<close>, at
  \<^verbatim>\<open>await recorder.start()\<close>. It runs in two steps, and other code of the page (a
  second call among it) can run between them.

  The first step runs from the call to the \<^verbatim>\<open>await\<close>: the two guards, the search for
  the element, and the body of \<^verbatim>\<open>recorder.start()\<close>, which has no \<^verbatim>\<open>await\<close> of
  its own and so runs at once. The step ends either with the promise of the call
  settled (\<open>Settled\<close>: a guard returned, or an error thrown before the \<^verbatim>\<open>await\<close> was
  handled by the \<^verbatim>\<open>catch\<close> block), or suspended at the \<^verbatim>\<open>await\<close> (\<open>Awaiting\<close>,
  with the error \<^verbatim>\<open>recorder.start()\<close> threw, if any, and the recorder).
\<close>

datatype start_step = Settled "js_error + unit" | Awaiting "js_error option" VideoRecorder

definition startRecording_begin ::
  "start_env \<Rightarrow> StudioRecorder \<Rightarrow> browser \<Rightarrow>
   event list \<times> start_step \<times> StudioRecorder \<times> browser" where
  "startRecording_begin env refs br =
     (if isRecordingRef refs then
        ([ConsoleWarn ''Recording already in progress''], Settled (Inr ()), refs, br)
      else if isProcessingRef refs then
        ([ConsoleWarn ''Still processing previous recording''], Settled (Inr ()), refs, br)
      else
        (case element env of
           None \<Rightarrow>
             (let (events, refs', br') = start_failed NoCaptureElementError refs br
              in (events, Settled (Inr ()), refs', br'))
         | Some el \<Rightarrow>
             if \<not> has_captureStream el then
               (let (events, refs', br') = start_failed CaptureNotSupportedError refs br
                in (events, Settled (Inr ()), refs', br'))
             else
               (case VideoRecorder_start (isTypeSupported env) (now_recorder env)
                       (new_VideoRecorder el) br of
                  (err, vr, br') \<Rightarrow> ([], Awaiting err vr, refs, br'))))"

text \<open>
  The second step runs from the \<^verbatim>\<open>await\<close> to the end, on the refs and the encoders as
  they are by then: the \<^verbatim>\<open>catch\<close> block when \<^verbatim>\<open>recorder.start()\<close> threw, else the
  assignments to the refs and the two callbacks. The promise of the call resolves.
\<close>

definition startRecording_resume ::
  "start_env \<Rightarrow> js_error option \<Rightarrow> VideoRecorder \<Rightarrow> StudioRecorder \<Rightarrow> browser \<Rightarrow>
   event list \<times> (js_error + unit) \<times> StudioRecorder \<times> browser" where
  "startRecording_resume env thrown_by_start vr refs br =
     (case thrown_by_start of
        Some err \<Rightarrow>
          (let (events, refs', br') = start_failed err refs br in (events, Inr (), refs', br'))
      | None \<Rightarrow>
          ([OnProgress \<lparr>phase = ''recording'', step = Some ''Recording...'', progress = None\<rparr>,
            OnRecordingStart],
           Inr (),
           refs\<lparr>recorderRef := Some vr,
                recordStartTimeRef := Some (now_component env),
                isRecordingRef := True\<rparr>,
           br))"

text \<open>One call of \<^verbatim>\<open>startRecording\<close> with nothing else running before it settles:
  the effects, what its promise settles with, the refs and the page's encoders.\<close>

definition startRecording ::
  "start_env \<Rightarrow> StudioRecorder \<Rightarrow> browser \<Rightarrow>
   event list \<times> (js_error + unit) \<times> StudioRecorder \<times> browser" where
  "startRecording env refs br =
     (case startRecording_begin env refs br of
        (events, Settled r, refs', br') \<Rightarrow> (events, r, refs', br')
      | (events, Awaiting thrown_by_start vr, refs', br') \<Rightarrow>
          (let (events', r, refs'', br'') = startRecording_resume env thrown_by_start vr refs' br'
           in (events @ events', r, refs'', br'')))"

section \<open>Notions the properties are stated with\<close>

subsection \<open>The retry loop\<close>

text \<open>The effects of iteration \<open>i\<close> of the retry loop up to and including the call.\<close>

definition attempt_events :: "nat \<Rightarrow> nat \<Rightarrow> event list" where
  "attempt_events delayMs i =
     (if i > 0 then [Wait delayMs] else []) @ [Invoke ''daydream-prompt'']"

text \<open>The call of iteration \<open>j\<close> fails with an error the loop takes for "not ready".\<close>

definition not_ready_at :: "(nat \<Rightarrow> thrown option) \<Rightarrow> nat \<Rightarrow> bool" where
  "not_ready_at answers j = (case answers j of None \<Rightarrow> False | Some e \<Rightarrow> isNotReadyError e)"

definition not_ready_before :: "(nat \<Rightarrow> thrown option) \<Rightarrow> nat \<Rightarrow> bool" where
  "not_ready_before answers k = list_all (not_ready_at answers) [0..<k]"

text \<open>A first call followed by \<open>k\<close> more, each after a wait of one second.\<close>

definition update_calls :: "nat \<Rightarrow> event list" where
  "update_calls k =
     Invoke ''daydream-prompt'' # concat (replicate k [Wait 1000, Invoke ''daydream-prompt''])"

text \<open>Two error values for the examples.\<close>

definition not_ready_error :: thrown where
  "not_ready_error =
     \<lparr>message = Some ''Stream not ready yet'', inner_error = None, json_text = ''{}''\<rparr>"

definition other_error :: thrown where
  "other_error = \<lparr>message = Some ''Invalid params'', inner_error = None, json_text = ''{}''\<rparr>"

subsection \<open>The uploader\<close>

text \<open>A poll answers, and with a status that lets the loop go on.\<close>

definition still_processing :: "asset_data invoke_result \<Rightarrow> bool" where
  "still_processing r =
     (error r = None \<and> status_of (data r) \<noteq> Some ''ready'' \<and>
      status_of (data r) \<noteq> Some ''failed'' \<and> status_of (data r) \<noteq> Some ''error'')"

text \<open>The first \<open>n\<close> polls answer, none of them with the status ready or failed.\<close>

definition never_ready_or_failed :: "(nat \<Rightarrow> asset_data invoke_result) \<Rightarrow> nat \<Rightarrow> bool" where
  "never_ready_or_failed answers n =
     list_all (\<lambda>k. error (answers k) = None \<and> status_of (data (answers k)) \<noteq> Some ''ready'' \<and>
                  status_of (data (answers k)) \<noteq> Some ''failed'') [0..<n]"

text \<open>The effects of one iteration of the polling loop up to the progress report.\<close>

definition poll_events :: "upload_data \<Rightarrow> nat \<Rightarrow> bool \<Rightarrow> asset_data option \<Rightarrow> event list" where
  "poll_events uploadData attempts uploadDoneCalled assetData =
     [Invoke ''studio-asset-status''] @
     (if \<not> uploadDoneCalled \<and> status_of assetData = Some ''processing''
      then [upload_done uploadData] else []) @
     [processing attempts assetData]"

text \<open>An endpoint is offered: the field is there and is not the empty string.\<close>

definition offered :: "string option \<Rightarrow> bool" where
  "offered u = (case u of None \<Rightarrow> False | Some s \<Rightarrow> s \<noteq> [])"

text \<open>The resumable upload was offered and succeeded; the direct write was offered and
  answered with an ok response.\<close>

definition tus_succeeds :: "upload_env \<Rightarrow> upload_data \<Rightarrow> bool" where
  "tus_succeeds env uploadData =
     (offered (ud_tusEndpoint uploadData) \<and> tus_end (tus env) = TusSuccess)"

definition put_succeeds :: "upload_env \<Rightarrow> upload_data \<Rightarrow> bool" where
  "put_succeeds env uploadData =
     (offered (ud_uploadUrl uploadData) \<and>
      (case put env of PutResponse ok st txt \<Rightarrow> ok | PutThrows e \<Rightarrow> False))"

text \<open>The progress reports made from the byte counts of the TUS client: each carries
  the quotient of the bytes uploaded by the bytes in all.\<close>

definition byte_progress :: "upload_env \<Rightarrow> event list" where
  "byte_progress env =
     map (\<lambda>(bytesUploaded, bytesTotal).
            OnProgress
              \<lparr>phase = ''uploading'', step = Some ''Uploading...'',
               progress =
                 Some (if bytesTotal = 0 then (if bytesUploaded = 0 then NaN else Infinity)
                       else Num (of_nat bytesUploaded / of_nat bytesTotal))\<rparr>)
       (tus_progress (tus env))"

fun is_put :: "event \<Rightarrow> bool" where
  "is_put (FetchPut url t) = True"
| "is_put e = False"

fun is_tus :: "event \<Rightarrow> bool" where
  "is_tus (TusUpload endpoint filename t) = True"
| "is_tus e = False"

text \<open>Values for the examples: a ticket with a resumable endpoint only, one with a direct
  endpoint only, one with both, the exception of a \<^verbatim>\<open>fetch\<close> that cannot reach the
  server, a poll answer with a given status, and an upload with a given ticket, end of
  the TUS run, direct write and poll answers.\<close>

definition tus_ticket :: upload_data where
  "tus_ticket =
     \<lparr>ud_assetId = Some ''asset-1'', ud_tusEndpoint = Some ''https://tus.example/files'',
      ud_uploadUrl = None, ud_playbackId = Some ''pb-0'', ud_rawUploadedFileUrl = None\<rparr>"

definition put_ticket :: upload_data where
  "put_ticket =
     \<lparr>ud_assetId = Some ''asset-2'', ud_tusEndpoint = None,
      ud_uploadUrl = Some ''https://put.example/file'', ud_playbackId = None,
      ud_rawUploadedFileUrl = None\<rparr>"

definition both_ticket :: upload_data where
  "both_ticket =
     \<lparr>ud_assetId = Some ''asset-3'', ud_tusEndpoint = Some ''https://tus.example/files'',
      ud_uploadUrl = Some ''https://put.example/file'', ud_playbackId = None,
      ud_rawUploadedFileUrl = None\<rparr>"

definition fetch_failed :: thrown where
  "fetch_failed = \<lparr>message = Some ''Failed to fetch'', inner_error = None, json_text = ''{}''\<rparr>"

definition answer_with :: "string \<Rightarrow> string option \<Rightarrow> string option \<Rightarrow> asset_data" where
  "answer_with s pid reason =
     \<lparr>ad_status = Some s, ad_playbackId = pid, ad_downloadUrl = None,
      ad_error_message = reason, ad_progress = None\<rparr>"

definition upload_with ::
  "upload_data \<Rightarrow> tus_end \<Rightarrow> put_outcome \<Rightarrow> (nat \<Rightarrow> asset_data) \<Rightarrow> upload_env" where
  "upload_with t te p answers =
     \<lparr>ticket = \<lparr>data = Some t, error = None\<rparr>,
      tus = \<lparr>tus_progress = [(50, 100), (100, 100)], tus_end = te\<rparr>,
      put = p,
      polls = (\<lambda>k. \<lparr>data = Some (answers k), error = None\<rparr>)\<rparr>"

definition webm :: blob where
  "webm = \<lparr>bytes = replicate 1200 0, blob_type = ''video/webm''\<rparr>"

subsection \<open>The recorder\<close>

text \<open>The chunks the \<^verbatim>\<open>ondataavailable\<close> handler keeps of a run of events.\<close>

definition accepted :: "blob option list \<Rightarrow> blob list" where
  "accepted ds =
     concat (map (\<lambda>d. case d of None \<Rightarrow> [] | Some b \<Rightarrow> if blob_size b > 0 then [b] else []) ds)"

text \<open>
  What \<^verbatim>\<open>stop()\<close> does with the chunks \<open>cs\<close> once the encoder has stopped in time:
  the effects and the result, for the start time \<open>t0\<close> and the format \<open>mt\<close>.
\<close>

definition stop_outcome ::
  "stop_env \<Rightarrow> int \<Rightarrow> string \<Rightarrow> blob list \<Rightarrow> event list \<times> (js_error + RecordingResult)" where
  "stop_outcome env t0 mt cs =
     (if cs = [] then ([], Inl EmptyRecordingError)
      else if blob_size (new_Blob cs mt) < 1000 then
        ([], Inl (UndersizedRecordingError (blob_size (new_Blob cs mt))))
      else
        (case fixWebmDuration env (new_Blob cs mt) (now env - t0) of
           Some fixed \<Rightarrow>
             ([], Inr \<lparr>rr_blob = fixed, rr_durationMs = now env - t0, rr_mimeType = mt\<rparr>)
         | None \<Rightarrow>
             ([ConsoleError ''Failed to fix WebM duration (proceeding anyway):''],
              Inr \<lparr>rr_blob = new_Blob cs mt, rr_durationMs = now env - t0, rr_mimeType = mt\<rparr>)))"

text \<open>Values for the examples: a fragment of \<open>n\<close> bytes, an element that can be captured,
  a page without encoders, a recorder started at time 1000 on a browser that supports
  plain WebM only, an idle component, a component that records with this recorder, and
  the outside of a \<^verbatim>\<open>startRecording\<close> call that finds this element.\<close>

definition fragment :: "nat \<Rightarrow> blob" where
  "fragment n = \<lparr>bytes = replicate n 0, blob_type = ''video/webm''\<rparr>"

definition capturable :: video_element where
  "capturable = \<lparr>has_captureStream = True, yields_stream = True\<rparr>"

definition no_encoders :: browser where
  "no_encoders = \<lparr>created = 0, recording = {}\<rparr>"

definition started_recorder :: VideoRecorder where
  "started_recorder =
     \<lparr>videoElement = capturable, recorder = Some 0, chunks = [], startTime = Some 1000,
      mimeType = ''video/webm''\<rparr>"

definition one_encoder :: browser where
  "one_encoder = \<lparr>created = 1, recording = {0}\<rparr>"

definition idle :: StudioRecorder where
  "idle =
     \<lparr>recorderRef = None, recordStartTimeRef = None, isRecordingRef = False,
      isProcessingRef = False\<rparr>"

definition now_recording :: StudioRecorder where
  "now_recording =
     \<lparr>recorderRef = Some started_recorder, recordStartTimeRef = Some 1001,
      isRecordingRef = True, isProcessingRef = False\<rparr>"

definition start_on_capturable :: start_env where
  "start_on_capturable =
     \<lparr>element = Some capturable, isTypeSupported = (\<lambda>m. m = ''video/webm''),
      now_recorder = 1000, now_component = 1001\<rparr>"

fun is_on_error :: "event \<Rightarrow> bool" where
  "is_on_error (OnError err) = True"
| "is_on_error e = False"

text \<open>A stand-in for the repair library in the examples: it answers a blob of as many
  bytes as the duration it is given, and \<open>toy_duration\<close> reads the duration back.\<close>

definition toy_repair :: "blob \<Rightarrow> int \<Rightarrow> blob option" where
  "toy_repair b d =
     (if d < 0 then None else Some \<lparr>bytes = replicate (nat d) 1, blob_type = blob_type b\<rparr>)"

definition toy_duration :: "blob \<Rightarrow> int option" where
  "toy_duration b = Some (int (length (bytes b)))"

definition stop_with :: "blob option list \<Rightarrow> (blob \<Rightarrow> int \<Rightarrow> blob option) \<Rightarrow> stop_env" where
  "stop_with ds repair = \<lparr>signal = Stops 40, flushed = ds, now = 6000, fixWebmDuration = repair\<rparr>"

section \<open>The retry loop of the initial parameter update\<close>

lemma retry_loop_not_ready:
  "attempt < m \<Longrightarrow> not_ready_at answers attempt \<Longrightarrow>
   retry_loop answers m d attempt =
     (attempt_events d attempt @ fst (retry_loop answers m d (attempt + 1)),
      snd (retry_loop answers m d (attempt + 1)))"
  by (subst retry_loop.simps)
     (auto simp: not_ready_at_def updateDaydreamPrompts_def attempt_events_def
           split: option.splits prod.splits)

lemma retry_loop_success:
  "attempt < m \<Longrightarrow> answers attempt = None \<Longrightarrow>
   retry_loop answers m d attempt = (attempt_events d attempt, Inr ())"
  by (subst retry_loop.simps)
     (auto simp: updateDaydreamPrompts_def attempt_events_def)

lemma retry_loop_other:
  "attempt < m \<Longrightarrow> answers attempt = Some e \<Longrightarrow> \<not> isNotReadyError e \<Longrightarrow>
   retry_loop answers m d attempt =
     (attempt_events d attempt @
        [ConsoleError ''Non-retryable error updating stream params:'',
         ConsoleWarn ''Stream will use default parameters''], Inr ())"
  by (subst retry_loop.simps)
     (auto simp: updateDaydreamPrompts_def attempt_events_def)

lemma retry_loop_exhausted:
  "\<not> attempt < m \<Longrightarrow>
   retry_loop answers m d attempt =
     ([ConsoleWarn ''Failed to update initial stream params after retries''], Inr ())"
  by (subst retry_loop.simps) simp

lemma retry_loop_returns: "snd (retry_loop answers m d attempt) = Inr ()"
proof (induction answers m d attempt rule: retry_loop.induct)
  case (1 answers maxRetries delayMs attempt)
  show ?case
  proof (cases "attempt < maxRetries")
    case False
    then show ?thesis by (simp add: retry_loop_exhausted)
  next
    case True
    show ?thesis
    proof (cases "answers attempt")
      case None
      with True show ?thesis by (simp add: retry_loop_success)
    next
      case (Some e)
      show ?thesis
      proof (cases "isNotReadyError e")
        case False
        with True Some show ?thesis by (simp add: retry_loop_other)
      next
        case nr: True
        have "not_ready_at answers attempt" using Some nr by (simp add: not_ready_at_def)
        moreover have "snd (retry_loop answers maxRetries delayMs (attempt + 1)) = Inr ()"
          using "1.IH" [OF True refl _ refl, of "[Invoke ''daydream-prompt'']" "Inl e" e] Some nr
          by (simp add: updateDaydreamPrompts_def)
        ultimately show ?thesis using True by (simp add: retry_loop_not_ready)
      qed
    qed
  qed
qed

lemma retry_loop_run:
  "a \<le> k \<Longrightarrow> k \<le> m \<Longrightarrow> (\<forall>j. a \<le> j \<and> j < k \<longrightarrow> not_ready_at answers j) \<Longrightarrow>
   retry_loop answers m d a =
     (concat (map (attempt_events d) [a..<k]) @ fst (retry_loop answers m d k),
      snd (retry_loop answers m d k))"
proof (induction "k - a" arbitrary: a)
  case 0
  then show ?case by simp
next
  case (Suc n)
  then have lt: "a < k" "a < m" and nr: "not_ready_at answers a" by auto
  have "retry_loop answers m d (a + 1) =
     (concat (map (attempt_events d) [a + 1..<k]) @ fst (retry_loop answers m d k),
      snd (retry_loop answers m d k))"
    using Suc.hyps(1) [of "a + 1"] Suc.hyps(2) Suc.prems by auto
  then show ?case
    using lt nr by (simp add: retry_loop_not_ready upt_conv_Cons)
qed

lemma concat_replicate_snoc: "concat (replicate (Suc k) x) = concat (replicate k x) @ x"
  by (induction k) simp_all

lemma attempts_update_calls: "concat (map (attempt_events 1000) [0..<Suc k]) = update_calls k"
proof (induction k)
  case 0
  show ?case by (simp add: attempt_events_def update_calls_def)
next
  case (Suc k)
  have "concat (map (attempt_events 1000) [0..<Suc (Suc k)]) =
        concat (map (attempt_events 1000) [0..<Suc k]) @ attempt_events 1000 (Suc k)"
    by simp
  also have "\<dots> = update_calls k @ [Wait 1000, Invoke ''daydream-prompt'']"
    by (simp only: Suc.IH) (simp add: attempt_events_def)
  also have "\<dots> = update_calls (Suc k)"
    by (simp only: update_calls_def concat_replicate_snoc append_Cons)
  finally show ?case .
qed

lemma not_ready_beforeD: "not_ready_before answers k \<Longrightarrow> j < k \<Longrightarrow> not_ready_at answers j"
  by (simp add: not_ready_before_def list_all_iff)

section \<open>The polling loop\<close>

lemma poll_loop_continue:
  "attempts < maxAttempts \<Longrightarrow> still_processing (answers attempts) \<Longrightarrow>
   poll_loop answers ud attempts called ad =
     (poll_events ud attempts called (data (answers attempts)) @ [Wait 1000] @
        fst (poll_loop answers ud (attempts + 1)
               (called \<or> status_of (data (answers attempts)) = Some ''processing'')
               (data (answers attempts))),
      snd (poll_loop answers ud (attempts + 1)
               (called \<or> status_of (data (answers attempts)) = Some ''processing'')
               (data (answers attempts))))"
  by (subst poll_loop.simps)
     (auto simp: still_processing_def poll_events_def Let_def split: prod.splits)

lemma poll_loop_ready:
  "attempts < maxAttempts \<Longrightarrow> error (answers attempts) = None \<Longrightarrow>
   status_of (data (answers attempts)) = Some ''ready'' \<Longrightarrow>
   poll_loop answers ud attempts called ad =
     (poll_events ud attempts called (data (answers attempts)), Inr (data (answers attempts)))"
  by (subst poll_loop.simps) (simp add: poll_events_def Let_def)

lemma poll_loop_failed:
  "attempts < maxAttempts \<Longrightarrow> error (answers attempts) = None \<Longrightarrow>
   status_of (data (answers attempts)) = Some ''failed'' \<or>
   status_of (data (answers attempts)) = Some ''error'' \<Longrightarrow>
   poll_loop answers ud attempts called ad =
     (poll_events ud attempts called (data (answers attempts)) @
        [ConsoleError ''Asset processing failed:''],
      Inl (ProcessingFailedError
            (or_else (case data (answers attempts) of None \<Rightarrow> None | Some a \<Rightarrow> ad_error_message a)
               ''Unknown processing error'')))"
  by (subst poll_loop.simps) (auto simp add: poll_events_def Let_def)

lemma poll_loop_exit:
  "\<not> attempts < maxAttempts \<Longrightarrow> poll_loop answers ud attempts called ad = ([], Inr ad)"
  by (subst poll_loop.simps) simp

lemma polls_performed_append:
  "polls_performed (xs @ ys) = polls_performed xs + polls_performed ys"
  by (simp add: polls_performed_def)

lemma polls_performed_poll_events:
  "polls_performed (poll_events ud attempts called a) = 1"
  by (simp add: polls_performed_def poll_events_def upload_done_def processing_def Let_def)

lemma polls_performed_console: "polls_performed [ConsoleError m] = 0"
  by (simp add: polls_performed_def)

text \<open>A run of polls that let the loop go on, from \<open>attempts\<close> up to \<open>k\<close>.\<close>

lemma poll_loop_run:
  "k \<le> maxAttempts \<Longrightarrow> attempts \<le> k \<Longrightarrow>
   (\<forall>j. attempts \<le> j \<and> j < k \<longrightarrow> still_processing (answers j)) \<Longrightarrow>
   \<exists>pre called' ad'.
     poll_loop answers ud attempts called ad =
       (pre @ fst (poll_loop answers ud k called' ad'), snd (poll_loop answers ud k called' ad')) \<and>
     polls_performed pre = k - attempts \<and>
     (attempts < k \<longrightarrow> ad' = data (answers (k - 1))) \<and>
     (attempts = k \<longrightarrow> ad' = ad)"
proof (induction "k - attempts" arbitrary: attempts called ad)
  case 0
  then have "attempts = k" by simp
  then show ?case
    by (intro exI [of _ "[]"] exI [of _ called] exI [of _ ad]) (simp add: polls_performed_def)
next
  case (Suc n)
  then have lt: "attempts < maxAttempts" and sp: "still_processing (answers attempts)"
    and n: "n = k - (attempts + 1)" and le: "attempts + 1 \<le> k"
    by auto
  let ?called = "called \<or> status_of (data (answers attempts)) = Some ''processing''"
  let ?ad = "data (answers attempts)"
  from Suc.hyps(1) [OF n Suc.prems(1) le, of ?called ?ad] Suc.prems(3)
  obtain pre called' ad' where
    run: "poll_loop answers ud (attempts + 1) ?called ?ad =
            (pre @ fst (poll_loop answers ud k called' ad'), snd (poll_loop answers ud k called' ad'))"
    and cnt: "polls_performed pre = k - (attempts + 1)"
    and a1: "attempts + 1 < k \<longrightarrow> ad' = data (answers (k - 1))"
    and a2: "attempts + 1 = k \<longrightarrow> ad' = ?ad"
    by auto
  have "poll_loop answers ud attempts called ad =
          ((poll_events ud attempts called ?ad @ [Wait 1000] @ pre) @
             fst (poll_loop answers ud k called' ad'),
           snd (poll_loop answers ud k called' ad'))"
    using lt sp run by (simp add: poll_loop_continue)
  moreover have "polls_performed (poll_events ud attempts called ?ad @ [Wait 1000] @ pre) =
                 k - attempts"
    using cnt le
    by (simp add: polls_performed_append polls_performed_poll_events)
       (simp add: polls_performed_def)
  moreover have "attempts < k \<longrightarrow> ad' = data (answers (k - 1))"
    using a1 a2 le by (cases "attempts + 1 = k") auto
  moreover have "attempts \<noteq> k" using le by simp
  ultimately show ?case by blast
qed

section \<open>The steps of the upload\<close>

lemma offered_truthy: "offered u = truthy u"
  by (cases u) (simp_all add: offered_def)

lemma polls_performed_request_upload: "polls_performed (fst (request_upload env)) = 0"
  by (simp add: request_upload_def polls_performed_def split: option.splits)

lemma polls_performed_byte_progress: "polls_performed (byte_progress env) = 0"
  by (auto simp: polls_performed_def byte_progress_def uploading_def filter_empty_conv)

lemma tus_upload_eq:
  "tus_upload env ud b filename =
     (if truthy (ud_tusEndpoint ud) then
        ([uploading None,
          TusUpload (the (ud_tusEndpoint ud)) filename (or_else (Some (blob_type b)) ''video/webm'')] @
         byte_progress env @
         (case tus_end (tus env) of
            TusSuccess \<Rightarrow> []
          | TusError m \<Rightarrow> [ConsoleError ''TUS upload failed:'', ConsoleError ''TUS upload failed:'']),
         tus_end (tus env) = TusSuccess)
      else ([], False))"
  by (simp add: tus_upload_def byte_progress_def uploading_def js_div_def)

lemma polls_performed_tus_upload: "polls_performed (fst (tus_upload env ud b filename)) = 0"
  using polls_performed_byte_progress [of env]
  by (simp add: tus_upload_eq polls_performed_def uploading_def split: tus_end.splits)

lemma polls_performed_put_upload: "polls_performed (fst (put_upload env ud b)) = 0"
  by (simp add: put_upload_def polls_performed_def uploading_def split: put_outcome.splits)

lemma polls_performed_upload_file: "polls_performed (fst (upload_file env ud b filename)) = 0"
  using polls_performed_tus_upload [of env ud b filename] polls_performed_put_upload [of env ud b]
  by (auto simp: upload_file_def polls_performed_append split: prod.splits sum.splits)

lemma is_upload_done_simps:
  "\<not> is_upload_done (processing k a)" "\<not> is_upload_done (uploading p)"
  "is_upload_done (upload_done ud)"
  by (simp_all add: processing_def uploading_def upload_done_def Let_def)

lemma not_upload_done_request_upload: "filter is_upload_done (fst (request_upload env)) = []"
  by (simp add: request_upload_def split: option.splits)

lemma not_upload_done_byte_progress: "filter is_upload_done (byte_progress env) = []"
  by (auto simp: byte_progress_def uploading_def filter_empty_conv)

lemma not_upload_done_tus_upload:
  "filter is_upload_done (fst (tus_upload env ud b filename)) = []"
  by (simp add: tus_upload_eq not_upload_done_byte_progress uploading_def split: tus_end.splits)

lemma not_upload_done_put_upload: "filter is_upload_done (fst (put_upload env ud b)) = []"
  by (simp add: put_upload_def uploading_def split: put_outcome.splits)

lemma not_upload_done_upload_file:
  "filter is_upload_done (fst (upload_file env ud b filename)) = []"
  using not_upload_done_tus_upload [of env ud b filename] not_upload_done_put_upload [of env ud b]
  by (auto simp: upload_file_def split: prod.splits sum.splits)

text \<open>The two ways of step 2.\<close>

lemma is_put_byte_progress: "filter is_put (byte_progress env) = []"
  by (auto simp: byte_progress_def filter_empty_conv)

lemma is_put_tus_upload: "filter is_put (fst (tus_upload env ud b filename)) = []"
  by (simp add: tus_upload_eq is_put_byte_progress uploading_def split: tus_end.splits)

lemma upload_file_tus_succeeds:
  "tus_succeeds env ud \<Longrightarrow>
   upload_file env ud b filename =
     ([uploading None,
       TusUpload (the (ud_tusEndpoint ud)) filename (or_else (Some (blob_type b)) ''video/webm'')] @
      byte_progress env, Inr ())"
  by (simp add: upload_file_def tus_upload_eq tus_succeeds_def offered_truthy)

lemma upload_file_fallback:
  "\<not> tus_succeeds env ud \<Longrightarrow>
   upload_file env ud b filename =
     (fst (tus_upload env ud b filename) @ fst (put_upload env ud b),
      (case snd (put_upload env ud b) of
         Inl err \<Rightarrow> Inl err
       | Inr uploaded \<Rightarrow> if uploaded then Inr () else Inl (UploadError NoUploadSucceeded)))"
  by (auto simp: upload_file_def tus_upload_eq tus_succeeds_def offered_truthy
           split: prod.splits sum.splits)

lemma put_upload_offered:
  "ud_uploadUrl ud = Some url \<Longrightarrow> url \<noteq> [] \<Longrightarrow>
   filter is_put (fst (put_upload env ud b)) =
     [FetchPut url (if blob_type b = [] then ''video/webm'' else blob_type b)] \<and>
   (snd (put_upload env ud b) = Inr True) = put_succeeds env ud \<and>
   snd (put_upload env ud b) \<noteq> Inr False"
  by (simp add: put_upload_def put_succeeds_def offered_def uploading_def
           split: put_outcome.splits)

lemma put_upload_not_offered:
  "\<not> offered (ud_uploadUrl ud) \<Longrightarrow> put_upload env ud b = ([], Inr False)"
  by (simp add: put_upload_def offered_truthy)

lemma put_upload_rejected:
  "offered (ud_uploadUrl ud) \<Longrightarrow> put env = PutResponse False st txt \<Longrightarrow>
   snd (put_upload env ud b) =
     Inl (UploadError (PutRejected st (case txt of None \<Rightarrow> ''Unknown error'' | Some t \<Rightarrow> t)))"
  by (simp add: put_upload_def offered_truthy)

lemma put_upload_throws:
  "offered (ud_uploadUrl ud) \<Longrightarrow> put env = PutThrows e \<Longrightarrow>
   snd (put_upload env ud b) = Inl (Rethrown e)"
  by (simp add: put_upload_def offered_truthy)

text \<open>Once the ticket is granted and the file delivered, the rest is the polling.\<close>

lemma uploadToLivepeer_delivered:
  assumes "snd (request_upload env) = Inr ud" and "snd (upload_file env ud b filename) = Inr ()"
  shows "uploadToLivepeer env b filename =
           (fst (request_upload env) @ fst (upload_file env ud b filename) @ fst (poll_asset env ud),
            snd (poll_asset env ud))"
  using assms
  by (cases "request_upload env"; cases "upload_file env ud b filename"; cases "poll_asset env ud")
     (simp add: uploadToLivepeer_def)

lemma uploadToLivepeer_not_delivered:
  assumes "snd (request_upload env) = Inr ud" and "snd (upload_file env ud b filename) = Inl err"
  shows "uploadToLivepeer env b filename =
           (fst (request_upload env) @ fst (upload_file env ud b filename), Inl err)"
  using assms
  by (cases "request_upload env"; cases "upload_file env ud b filename")
     (simp add: uploadToLivepeer_def)

section \<open>Recording and stopping\<close>

lemma fold_ondataavailable:
  "fold ondataavailable ds vr = vr\<lparr>chunks := chunks vr @ accepted ds\<rparr>"
  by (induction ds arbitrary: vr) (auto simp: accepted_def ondataavailable_def split: option.splits)

lemma accepted_append: "accepted (xs @ ys) = accepted xs @ accepted ys"
  by (simp add: accepted_def)

lemma accepted_Some: "\<forall>b \<in> set fs. 0 < blob_size b \<Longrightarrow> accepted (map Some fs) = fs"
  by (induction fs) (auto simp: accepted_def)

lemma blob_size_new_Blob: "blob_size (new_Blob parts t) = sum_list (map blob_size parts)"
  by (induction parts) (simp_all add: blob_size_def new_Blob_def)

lemma VideoRecorder_start_ok:
  assumes "VideoRecorder_start supported t0 vr0 br0 = (None, vr1, br1)"
  shows "recorder vr1 = Some (created br0)" and "chunks vr1 = []" and "startTime vr1 = Some t0"
    and "mimeType vr1 \<noteq> []" and "recording br1 = insert (created br0) (recording br0)"
    and "created br1 = created br0 + 1"
  using assms
  by (auto simp: VideoRecorder_start_def Let_def split: if_splits option.splits)

text \<open>Stopping a recording that was started, and whose encoder stops in time.\<close>

lemma VideoRecorder_stop_after_start:
  assumes start: "VideoRecorder_start supported t0 vr0 br0 = (None, vr1, br1)"
    and t0: "t0 \<noteq> 0"
    and sig: "signal env = Stops ms" "ms < 5000"
  shows "(fst (VideoRecorder_stop env (fold ondataavailable es vr1) br1),
          fst (snd (VideoRecorder_stop env (fold ondataavailable es vr1) br1))) =
         stop_outcome env t0 (mimeType vr1) (accepted (es @ flushed env))"
  using VideoRecorder_start_ok [OF start] t0 sig
  by (auto simp: VideoRecorder_stop_def fold_ondataavailable stop_outcome_def Let_def
        accepted_append split: option.splits)

text \<open>The recorder of the examples is what \<^verbatim>\<open>start()\<close> makes of a new one.\<close>

lemma started_recorder_start:
  "VideoRecorder_start (\<lambda>m. m = ''video/webm'') 1000 (new_VideoRecorder capturable) no_encoders =
     (None, started_recorder, one_encoder)"
  by (simp add: VideoRecorder_start_def new_VideoRecorder_def capturable_def no_encoders_def
        started_recorder_def one_encoder_def mimeCandidates_def)

lemma start_on_capturable_simps:
  "element start_on_capturable = Some capturable" "has_captureStream capturable"
  "isTypeSupported start_on_capturable = (\<lambda>m. m = ''video/webm'')"
  "now_recorder start_on_capturable = 1000" "now_component start_on_capturable = 1001"
  by (simp_all add: start_on_capturable_def capturable_def)

lemma first_startRecording_begin:
  "startRecording_begin start_on_capturable idle no_encoders =
     ([], Awaiting None started_recorder, idle, one_encoder)"
  by (simp add: startRecording_begin_def started_recorder_start start_on_capturable_simps)
     (simp add: idle_def)

lemma first_startRecording:
  "startRecording start_on_capturable idle no_encoders =
     ([OnProgress \<lparr>phase = ''recording'', step = Some ''Recording...'', progress = None\<rparr>,
       OnRecordingStart],
      Inr (), now_recording, one_encoder)"
  by (simp add: startRecording_def first_startRecording_begin startRecording_resume_def
        start_on_capturable_simps)
     (simp add: idle_def now_recording_def)

section \<open>Properties\<close>

text \<open>
  C1. The ticket is granted and the file delivered, and the first four polls answer
  with the statuses queued, processing, processing, ready, the last with a playback id.
  Then the effects of the polling are exactly the four polls with their progress
  reports, one second apart, with one \<^verbatim>\<open>onUploadDone\<close> call, right after the second
  poll (the first that answers "processing"), and the final progress report; no other
  \<^verbatim>\<open>onUploadDone\<close> call is made anywhere; and \<^verbatim>\<open>uploadToLivepeer\<close> resolves
  with the playback id of the answer "ready".
\<close>

theorem uploadToLivepeer_scripted_statuses:
  assumes "snd (request_upload env) = Inr uploadData"
    and "snd (upload_file env uploadData b filename) = Inr ()"
    and "polls env 0 = \<lparr>data = Some a0, error = None\<rparr>" and "ad_status a0 = Some ''queued''"
    and "polls env 1 = \<lparr>data = Some a1, error = None\<rparr>" and "ad_status a1 = Some ''processing''"
    and "polls env 2 = \<lparr>data = Some a2, error = None\<rparr>" and "ad_status a2 = Some ''processing''"
    and "polls env 3 = \<lparr>data = Some a3, error = None\<rparr>" and "ad_status a3 = Some ''ready''"
    and "truthy (ad_playbackId a3)"
  shows "fst (uploadToLivepeer env b filename) =
           fst (request_upload env) @ fst (upload_file env uploadData b filename) @
           [Invoke ''studio-asset-status'', processing 0 (Some a0), Wait 1000,
            Invoke ''studio-asset-status'', upload_done uploadData, processing 1 (Some a1), Wait 1000,
            Invoke ''studio-asset-status'', processing 2 (Some a2), Wait 1000,
            Invoke ''studio-asset-status'', processing 3 (Some a3),
            OnProgress \<lparr>phase = ''complete'', step = Some ''Complete!'', progress = Some (Num 100)\<rparr>] \<and>
         filter is_upload_done (fst (uploadToLivepeer env b filename)) = [upload_done uploadData] \<and>
         snd (uploadToLivepeer env b filename) =
           Inr \<lparr>ur_assetId = the (ud_assetId uploadData),
                ur_playbackId = the (ad_playbackId a3),
                ur_downloadUrl = ad_downloadUrl a3,
                ur_rawUploadedFileUrl = ud_rawUploadedFileUrl uploadData\<rparr>"
proof -
  have s0: "still_processing (polls env 0)" and s1: "still_processing (polls env 1)"
    and s2: "still_processing (polls env 2)"
    using assms(3-8) by (simp_all add: still_processing_def status_of_def)
  note [simp] = numeral_2_eq_2 numeral_3_eq_3
  have p3: "poll_loop (polls env) uploadData 3 True (Some a2) =
              ([Invoke ''studio-asset-status'', processing 3 (Some a3)], Inr (Some a3))"
    using poll_loop_ready [of 3 "polls env" uploadData True "Some a2"] assms(9,10)
    by (simp add: maxAttempts_def status_of_def poll_events_def)
  have p2: "poll_loop (polls env) uploadData 2 True (Some a1) =
              ([Invoke ''studio-asset-status'', processing 2 (Some a2), Wait 1000,
                Invoke ''studio-asset-status'', processing 3 (Some a3)], Inr (Some a3))"
    using poll_loop_continue [of 2 "polls env" uploadData True "Some a1"] s2 assms(7,8) p3
    by (simp add: maxAttempts_def status_of_def poll_events_def)
  have p1: "poll_loop (polls env) uploadData 1 False (Some a0) =
              ([Invoke ''studio-asset-status'', upload_done uploadData, processing 1 (Some a1), Wait 1000,
                Invoke ''studio-asset-status'', processing 2 (Some a2), Wait 1000,
                Invoke ''studio-asset-status'', processing 3 (Some a3)], Inr (Some a3))"
    using poll_loop_continue [of 1 "polls env" uploadData False "Some a0"] s1 assms(5,6) p2
    by (simp add: maxAttempts_def status_of_def poll_events_def)
  have p0: "poll_loop (polls env) uploadData 0 False None =
              ([Invoke ''studio-asset-status'', processing 0 (Some a0), Wait 1000,
                Invoke ''studio-asset-status'', upload_done uploadData, processing 1 (Some a1), Wait 1000,
                Invoke ''studio-asset-status'', processing 2 (Some a2), Wait 1000,
                Invoke ''studio-asset-status'', processing 3 (Some a3)], Inr (Some a3))"
    using poll_loop_continue [of 0 "polls env" uploadData False None] s0 assms(3,4) p1
    by (simp add: maxAttempts_def status_of_def poll_events_def)
  have pa: "poll_asset env uploadData =
              ([Invoke ''studio-asset-status'', processing 0 (Some a0), Wait 1000,
                Invoke ''studio-asset-status'', upload_done uploadData, processing 1 (Some a1), Wait 1000,
                Invoke ''studio-asset-status'', processing 2 (Some a2), Wait 1000,
                Invoke ''studio-asset-status'', processing 3 (Some a3),
                OnProgress \<lparr>phase = ''complete'', step = Some ''Complete!'', progress = Some (Num 100)\<rparr>],
               Inr \<lparr>ur_assetId = the (ud_assetId uploadData),
                    ur_playbackId = the (ad_playbackId a3),
                    ur_downloadUrl = ad_downloadUrl a3,
                    ur_rawUploadedFileUrl = ud_rawUploadedFileUrl uploadData\<rparr>)"
    using assms(10,11) by (simp add: poll_asset_def p0 finish_upload_def status_of_def)
  have whole: "uploadToLivepeer env b filename =
           (fst (request_upload env) @ fst (upload_file env uploadData b filename) @
              fst (poll_asset env uploadData), snd (poll_asset env uploadData))"
    by (rule uploadToLivepeer_delivered [OF assms(1) assms(2)])
  have "filter is_upload_done (fst (poll_asset env uploadData)) = [upload_done uploadData]"
    by (simp add: pa is_upload_done_simps)
  then have "filter is_upload_done (fst (uploadToLivepeer env b filename)) = [upload_done uploadData]"
    by (simp add: whole not_upload_done_request_upload not_upload_done_upload_file)
  then show ?thesis
    by (simp add: whole pa)
qed

text \<open>The script of C1 on a ticket with a resumable endpoint.\<close>

theorem uploadToLivepeer_scripted_statuses_witness:
  "snd (uploadToLivepeer
          (upload_with tus_ticket TusSuccess (PutThrows fetch_failed)
             (\<lambda>k. if k = 0 then answer_with ''queued'' None None
                   else if k < 3 then answer_with ''processing'' None None
                   else answer_with ''ready'' (Some ''pb-final'') None))
          webm ''clip.webm'') =
     Inr \<lparr>ur_assetId = ''asset-1'', ur_playbackId = ''pb-final'', ur_downloadUrl = None,
          ur_rawUploadedFileUrl = None\<rparr> \<and>
   filter is_upload_done (fst (uploadToLivepeer
          (upload_with tus_ticket TusSuccess (PutThrows fetch_failed)
             (\<lambda>k. if k = 0 then answer_with ''queued'' None None
                   else if k < 3 then answer_with ''processing'' None None
                   else answer_with ''ready'' (Some ''pb-final'') None))
          webm ''clip.webm'')) =
     [OnUploadDone \<lparr>dr_assetId = ''asset-1'', dr_playbackId = Some ''pb-0'',
                    dr_rawUploadedFileUrl = None\<rparr>]"
  using uploadToLivepeer_scripted_statuses
    [of "upload_with tus_ticket TusSuccess (PutThrows fetch_failed)
             (\<lambda>k. if k = 0 then answer_with ''queued'' None None
                   else if k < 3 then answer_with ''processing'' None None
                   else answer_with ''ready'' (Some ''pb-final'') None)"
        tus_ticket webm "''clip.webm''"
        "answer_with ''queued'' None None" "answer_with ''processing'' None None"
        "answer_with ''processing'' None None" "answer_with ''ready'' (Some ''pb-final'') None"]
  by (simp add: request_upload_def upload_file_def tus_upload_def upload_with_def tus_ticket_def
        answer_with_def is_upload_done_simps)
     (simp add: upload_done_def)

text \<open>
  C2. A recording is started (at a time other than 0, which \<^verbatim>\<open>stop()\<close> would take for
  "not started"), the encoder emits the non-empty fragments \<open>fs1\<close> while recording and
  \<open>fs2\<close> while \<^verbatim>\<open>stop()\<close> waits, and it signals the stop within the 5 seconds. The blob
  built from the fragments, before the repair, has the sum of their sizes as its size.
  When that is at least 1000, \<^verbatim>\<open>stop()\<close> returns the result of the repair called with
  this blob and the measured time \<^verbatim>\<open>Date.now() - startTime\<close> (the blob itself when the
  repair fails) together with the measured time; so when the repair succeeds, and the
  library writes the duration it is given (\<open>duration_of\<close> reads it back), the duration
  in the returned blob is the measured time. When there are fragments and the size is
  below 1000, \<^verbatim>\<open>stop()\<close> fails with the undersized-recording error.
\<close>

theorem VideoRecorder_stop_artifact:
  assumes "VideoRecorder_start supported t0 vr0 br0 = (None, vr1, br1)" and "t0 \<noteq> 0"
    and "signal env = Stops ms" and "ms < 5000"
    and "\<forall>f \<in> set (fs1 @ fs2). 0 < blob_size f"
    and "flushed env = map Some fs2"
  shows
    "blob_size (new_Blob (fs1 @ fs2) (mimeType vr1)) = sum_list (map blob_size (fs1 @ fs2)) \<and>
     (1000 \<le> sum_list (map blob_size (fs1 @ fs2)) \<longrightarrow>
        fst (snd (VideoRecorder_stop env (fold ondataavailable (map Some fs1) vr1) br1)) =
          Inr \<lparr>rr_blob =
                 (case fixWebmDuration env (new_Blob (fs1 @ fs2) (mimeType vr1)) (now env - t0) of
                    Some fixed \<Rightarrow> fixed
                  | None \<Rightarrow> new_Blob (fs1 @ fs2) (mimeType vr1)),
               rr_durationMs = now env - t0,
               rr_mimeType = mimeType vr1\<rparr>) \<and>
     (1000 \<le> sum_list (map blob_size (fs1 @ fs2)) \<and>
      fixWebmDuration env (new_Blob (fs1 @ fs2) (mimeType vr1)) (now env - t0) = Some fixed \<and>
      (\<forall>x d y. fixWebmDuration env x d = Some y \<longrightarrow> duration_of y = Some d) \<longrightarrow>
        (\<exists>r. fst (snd (VideoRecorder_stop env (fold ondataavailable (map Some fs1) vr1) br1)) = Inr r \<and>
             duration_of (rr_blob r) = Some (now env - t0) \<and> rr_durationMs r = now env - t0)) \<and>
     (fs1 @ fs2 \<noteq> [] \<and> sum_list (map blob_size (fs1 @ fs2)) < 1000 \<longrightarrow>
        fst (snd (VideoRecorder_stop env (fold ondataavailable (map Some fs1) vr1) br1)) =
          Inl (UndersizedRecordingError (sum_list (map blob_size (fs1 @ fs2)))))"
proof -
  have acc: "accepted (map Some fs1 @ flushed env) = fs1 @ fs2"
    using assms(5,6) accepted_Some [of "fs1 @ fs2"] by simp
  have out: "fst (snd (VideoRecorder_stop env (fold ondataavailable (map Some fs1) vr1) br1)) =
             snd (stop_outcome env t0 (mimeType vr1) (fs1 @ fs2))"
    using VideoRecorder_stop_after_start [OF assms(1-4), of "map Some fs1"] acc
    by (metis snd_conv)
  have size: "blob_size (new_Blob (fs1 @ fs2) (mimeType vr1)) = sum_list (map blob_size (fs1 @ fs2))"
    by (rule blob_size_new_Blob)
  have ne: "1000 \<le> sum_list (map blob_size (fs1 @ fs2)) \<Longrightarrow> fs1 @ fs2 \<noteq> []"
    by auto
  show ?thesis
    using size ne
    by (auto simp: out stop_outcome_def split: option.splits)
qed

text \<open>Fragments of 600 and 500 bytes, recorded from time 1000 to time 6000: the blob has
  1100 bytes, and the repaired blob carries the duration 5000. A single fragment of 10
  bytes is refused as too small.\<close>

theorem VideoRecorder_stop_artifact_witness:
  "blob_size (new_Blob [fragment 600, fragment 500] ''video/webm'') = 1100 \<and>
   fst (snd (VideoRecorder_stop (stop_with [Some (fragment 500)] toy_repair)
               (fold ondataavailable [Some (fragment 600)] started_recorder) one_encoder)) =
     Inr \<lparr>rr_blob = \<lparr>bytes = replicate 5000 1, blob_type = ''video/webm''\<rparr>,
          rr_durationMs = 5000, rr_mimeType = ''video/webm''\<rparr> \<and>
   toy_duration \<lparr>bytes = replicate 5000 1, blob_type = ''video/webm''\<rparr> = Some 5000 \<and>
   fst (snd (VideoRecorder_stop (stop_with [] toy_repair)
               (fold ondataavailable [Some (fragment 10)] started_recorder) one_encoder)) =
     Inl (UndersizedRecordingError 10)"
  using
    VideoRecorder_stop_artifact
      [OF started_recorder_start, of "stop_with [Some (fragment 500)] toy_repair" 40
          "[fragment 600]" "[fragment 500]"
          "\<lparr>bytes = replicate 5000 1, blob_type = ''video/webm''\<rparr>" toy_duration]
    VideoRecorder_stop_artifact
      [OF started_recorder_start, of "stop_with [] toy_repair" 40 "[fragment 10]" "[]"]
  by (simp add: stop_with_def fragment_def blob_size_def new_Blob_def toy_repair_def
        toy_duration_def started_recorder_def)

text \<open>
  C3, as amended. \<^verbatim>\<open>startRecording\<close> is called and has settled, leaving the
  component recording; it is called again, with no stop in between. The second call
  returns at the first guard: the refs (among them the recorder of the first call, with
  its chunks and start time) and the encoders of the page are as the first call left
  them, the only effect is the console warning "Recording already in progress", and the
  promise of the call resolves. If the component was not recording before, and no
  encoder was active, exactly one encoder is active after the two calls, the one the
  first call constructed, and no other has been constructed.
\<close>

theorem startRecording_twice:
  assumes "startRecording env1 refs0 br0 = (events1, r1, refs1, br1)"
    and "isRecordingRef refs1"
  shows
    "startRecording_begin env2 refs1 br1 =
       ([ConsoleWarn ''Recording already in progress''], Settled (Inr ()), refs1, br1) \<and>
     startRecording env2 refs1 br1 =
       ([ConsoleWarn ''Recording already in progress''], Inr (), refs1, br1) \<and>
     (\<not> isRecordingRef refs0 \<and> recording br0 = {} \<longrightarrow>
        recording br1 = {created br0} \<and> created br1 = created br0 + 1 \<and>
        card (recording (snd (snd (snd (startRecording env2 refs1 br1))))) = 1 \<and>
        created (snd (snd (snd (startRecording env2 refs1 br1)))) = created br0 + 1)"
proof -
  have first: "startRecording_begin env2 refs1 br1 =
                 ([ConsoleWarn ''Recording already in progress''], Settled (Inr ()), refs1, br1)"
    using assms(2) by (simp add: startRecording_begin_def)
  then have second: "startRecording env2 refs1 br1 =
                  ([ConsoleWarn ''Recording already in progress''], Inr (), refs1, br1)"
    by (simp add: startRecording_def)
  have "recording br1 = {created br0} \<and> created br1 = created br0 + 1"
    if "\<not> isRecordingRef refs0" and "recording br0 = {}"
    using assms that
    by (auto simp: startRecording_def startRecording_begin_def startRecording_resume_def
          start_failed_def VideoRecorder_start_def Let_def
          split: if_splits option.splits prod.splits)
  then show ?thesis
    by (simp add: first second)
qed

text \<open>Two calls, one after the other, on an idle component with no encoder on the page.\<close>

theorem startRecording_twice_witness:
  "startRecording start_on_capturable
     (fst (snd (snd (startRecording start_on_capturable idle no_encoders))))
     (snd (snd (snd (startRecording start_on_capturable idle no_encoders)))) =
     ([ConsoleWarn ''Recording already in progress''], Inr (), now_recording, one_encoder) \<and>
   recording one_encoder = {0} \<and> created one_encoder = 1 \<and>
   card (recording one_encoder) = 1"
  using startRecording_twice
    [of start_on_capturable idle no_encoders
        "fst (startRecording start_on_capturable idle no_encoders)"
        "fst (snd (startRecording start_on_capturable idle no_encoders))"
        "fst (snd (snd (startRecording start_on_capturable idle no_encoders)))"
        "snd (snd (snd (startRecording start_on_capturable idle no_encoders)))"
        start_on_capturable]
  by (simp add: first_startRecording)
     (simp add: idle_def no_encoders_def one_encoder_def now_recording_def)

text \<open>
  C3 as stated fails. The second call reports no rejection: its promise resolves and the
  error callback is not invoked. The guard is the flag \<^verbatim>\<open>isRecordingRef\<close> of the
  component, set only after the \<^verbatim>\<open>await\<close>: a second call made while the first is
  suspended there passes the guard and constructs a second encoder, so two are active.
  And \<^verbatim>\<open>VideoRecorder.start()\<close> has no guard of its own: called again on a started
  recorder it succeeds and leaves two encoders active.
\<close>

theorem startRecording_twice_counterexample:
  "fst (snd (startRecording start_on_capturable now_recording one_encoder)) = Inr () \<and>
   filter is_on_error (fst (startRecording start_on_capturable now_recording one_encoder)) = [] \<and>
   startRecording_begin start_on_capturable idle no_encoders =
     ([], Awaiting None started_recorder, idle, one_encoder) \<and>
   fst (snd (startRecording_begin start_on_capturable idle one_encoder)) =
     Awaiting None (started_recorder\<lparr>recorder := Some 1\<rparr>) \<and>
   recording (snd (snd (snd (startRecording_begin start_on_capturable idle one_encoder)))) = {0, 1} \<and>
   card (recording (snd (snd (snd (startRecording_begin start_on_capturable idle one_encoder))))) = 2 \<and>
   fst (VideoRecorder_start (\<lambda>m. m = ''video/webm'') 2000 started_recorder one_encoder) = None \<and>
   card (recording (snd (snd
     (VideoRecorder_start (\<lambda>m. m = ''video/webm'') 2000 started_recorder one_encoder)))) = 2"
proof -
  have a: "startRecording start_on_capturable now_recording one_encoder =
             ([ConsoleWarn ''Recording already in progress''], Inr (), now_recording, one_encoder)"
    by (simp add: startRecording_def startRecording_begin_def now_recording_def)
  have b: "startRecording_begin start_on_capturable idle one_encoder =
             ([], Awaiting None (started_recorder\<lparr>recorder := Some 1\<rparr>), idle,
              \<lparr>created = 2, recording = {0, 1}\<rparr>)"
    by (simp add: startRecording_begin_def start_on_capturable_simps VideoRecorder_start_def
          new_VideoRecorder_def mimeCandidates_def one_encoder_def started_recorder_def
          capturable_def idle_def insert_commute)
  have c: "VideoRecorder_start (\<lambda>m. m = ''video/webm'') 2000 started_recorder one_encoder =
             (None, started_recorder\<lparr>recorder := Some 1, startTime := Some 2000\<rparr>,
              \<lparr>created = 2, recording = {0, 1}\<rparr>)"
    by (simp add: VideoRecorder_start_def mimeCandidates_def one_encoder_def
          started_recorder_def capturable_def insert_commute)
  show ?thesis
    by (simp add: a b c first_startRecording_begin)
qed

text \<open>
  C4, as amended. The ticket is granted and the file delivered. If each of the first 300
  polls answers, and none with the status ready, failed or error, then
  \<^verbatim>\<open>uploadToLivepeer\<close> rejects with the timeout error, having made exactly 300
  polls: the list of effects is everything the call does, so no poll follows.
\<close>

theorem uploadToLivepeer_timeout:
  assumes "snd (request_upload env) = Inr uploadData"
    and "snd (upload_file env uploadData b filename) = Inr ()"
    and "\<forall>k<300. still_processing (polls env k)"
  shows "snd (uploadToLivepeer env b filename) = Inl ProcessingTimeoutError \<and>
         polls_performed (fst (uploadToLivepeer env b filename)) = 300"
proof -
  obtain pre called' ad' where
    run: "poll_loop (polls env) uploadData 0 False None =
            (pre @ fst (poll_loop (polls env) uploadData maxAttempts called' ad'),
             snd (poll_loop (polls env) uploadData maxAttempts called' ad'))"
    and cnt: "polls_performed pre = maxAttempts - 0"
    and last: "0 < maxAttempts \<longrightarrow> ad' = data (polls env (maxAttempts - 1))"
    using poll_loop_run [of maxAttempts 0 "polls env" uploadData False None] assms(3)
    by (auto simp: maxAttempts_def)
  have loop: "poll_loop (polls env) uploadData 0 False None = (pre, Inr ad')"
    using run by (simp add: poll_loop_exit)
  have "still_processing (polls env 299)" using assms(3) by simp
  then have "status_of ad' \<noteq> Some ''ready''"
    using last by (simp add: maxAttempts_def still_processing_def)
  then have "poll_asset env uploadData =
               (pre @ [ConsoleError ''Asset processing timeout. Last status:''],
                Inl ProcessingTimeoutError)"
    using loop by (simp add: poll_asset_def finish_upload_def)
  then show ?thesis
    using uploadToLivepeer_delivered [OF assms(1) assms(2)] cnt
    by (simp add: polls_performed_append polls_performed_request_upload
          polls_performed_upload_file maxAttempts_def)
       (simp add: polls_performed_def)
qed

text \<open>An upload whose polls all answer "processing" times out after 300 polls.\<close>

theorem uploadToLivepeer_timeout_witness:
  "snd (uploadToLivepeer
          (upload_with tus_ticket TusSuccess (PutThrows fetch_failed) (\<lambda>k. answer_with ''processing'' None None))
          webm ''clip.webm'') = Inl ProcessingTimeoutError \<and>
   polls_performed (fst (uploadToLivepeer
          (upload_with tus_ticket TusSuccess (PutThrows fetch_failed) (\<lambda>k. answer_with ''processing'' None None))
          webm ''clip.webm'')) = 300"
  using uploadToLivepeer_timeout
    [of "upload_with tus_ticket TusSuccess (PutThrows fetch_failed) (\<lambda>k. answer_with ''processing'' None None)"
        tus_ticket webm "''clip.webm''"]
  by (simp add: request_upload_def upload_file_def tus_upload_def upload_with_def tus_ticket_def
        still_processing_def status_of_def answer_with_def)

text \<open>
  C4 as stated fails: the loop also ends on the status error. For an upload whose polls
  all answer "error", no poll ever answers ready or failed, yet the call rejects at the
  first poll with the processing failure, not with the timeout.
\<close>

theorem uploadToLivepeer_timeout_counterexample:
  "never_ready_or_failed
     (polls (upload_with tus_ticket TusSuccess (PutThrows fetch_failed) (\<lambda>k. answer_with ''error'' None None)))
     300 \<and>
   snd (uploadToLivepeer
          (upload_with tus_ticket TusSuccess (PutThrows fetch_failed) (\<lambda>k. answer_with ''error'' None None))
          webm ''clip.webm'') = Inl (ProcessingFailedError ''Unknown processing error'') \<and>
   snd (uploadToLivepeer
          (upload_with tus_ticket TusSuccess (PutThrows fetch_failed) (\<lambda>k. answer_with ''error'' None None))
          webm ''clip.webm'') \<noteq> Inl ProcessingTimeoutError \<and>
   polls_performed (fst (uploadToLivepeer
          (upload_with tus_ticket TusSuccess (PutThrows fetch_failed) (\<lambda>k. answer_with ''error'' None None))
          webm ''clip.webm'')) = 1"
proof -
  let ?env = "upload_with tus_ticket TusSuccess (PutThrows fetch_failed) (\<lambda>k. answer_with ''error'' None None)"
  have d: "snd (request_upload ?env) = Inr tus_ticket"
    "snd (upload_file ?env tus_ticket webm ''clip.webm'') = Inr ()"
    by (simp_all add: request_upload_def upload_file_def tus_upload_def upload_with_def
          tus_ticket_def)
  have "poll_loop (polls ?env) tus_ticket 0 False None =
          (poll_events tus_ticket 0 False (data (polls ?env 0)) @
             [ConsoleError ''Asset processing failed:''],
           Inl (ProcessingFailedError ''Unknown processing error''))"
    by (subst poll_loop_failed)
       (simp_all add: maxAttempts_def upload_with_def answer_with_def status_of_def)
  then have "poll_asset ?env tus_ticket =
          (poll_events tus_ticket 0 False (data (polls ?env 0)) @
             [ConsoleError ''Asset processing failed:''],
           Inl (ProcessingFailedError ''Unknown processing error''))"
    by (simp add: poll_asset_def)
  then have r: "uploadToLivepeer ?env webm ''clip.webm'' =
          (fst (request_upload ?env) @ fst (upload_file ?env tus_ticket webm ''clip.webm'') @
             poll_events tus_ticket 0 False (data (polls ?env 0)) @
             [ConsoleError ''Asset processing failed:''],
           Inl (ProcessingFailedError ''Unknown processing error''))"
    using uploadToLivepeer_delivered [OF d] by simp
  have "snd (uploadToLivepeer ?env webm ''clip.webm'') =
               Inl (ProcessingFailedError ''Unknown processing error'')"
    by (simp only: r snd_conv)
  moreover have "polls_performed (fst (uploadToLivepeer ?env webm ''clip.webm'')) = 1"
    by (simp only: r fst_conv polls_performed_append polls_performed_request_upload
          polls_performed_upload_file polls_performed_poll_events polls_performed_console)
  moreover have "never_ready_or_failed (polls ?env) 300"
    by (simp add: never_ready_or_failed_def list_all_iff upload_with_def answer_with_def
          status_of_def)
  ultimately show ?thesis by simp
qed

text \<open>
  C5. The ticket is granted and the file delivered. If poll number \<open>k + 1\<close> (for any
  \<open>k < 300\<close>, the polls before it having let the loop go on) answers with the status
  failed, then \<^verbatim>\<open>uploadToLivepeer\<close> rejects with the processing failure that carries
  \<^verbatim>\<open>error.message\<close> of that answer (or "Unknown processing error" when the answer
  has none), and it has made exactly \<open>k + 1\<close> polls: none after the failed one.
\<close>

theorem uploadToLivepeer_failed:
  assumes "snd (request_upload env) = Inr uploadData"
    and "snd (upload_file env uploadData b filename) = Inr ()"
    and "k < 300"
    and "\<forall>j<k. still_processing (polls env j)"
    and "polls env k = \<lparr>data = Some a, error = None\<rparr>"
    and "ad_status a = Some ''failed''"
  shows "snd (uploadToLivepeer env b filename) =
           Inl (ProcessingFailedError (or_else (ad_error_message a) ''Unknown processing error'')) \<and>
         polls_performed (fst (uploadToLivepeer env b filename)) = k + 1"
proof -
  obtain pre called' ad' where
    run: "poll_loop (polls env) uploadData 0 False None =
            (pre @ fst (poll_loop (polls env) uploadData k called' ad'),
             snd (poll_loop (polls env) uploadData k called' ad'))"
    and cnt: "polls_performed pre = k - 0"
    using poll_loop_run [of k 0 "polls env" uploadData False None] assms(3,4)
    by (auto simp: maxAttempts_def)
  have "poll_loop (polls env) uploadData k called' ad' =
          (poll_events uploadData k called' (Some a) @ [ConsoleError ''Asset processing failed:''],
           Inl (ProcessingFailedError (or_else (ad_error_message a) ''Unknown processing error'')))"
    using poll_loop_failed [of k "polls env" uploadData called' ad'] assms(3,5,6)
    by (simp add: maxAttempts_def status_of_def)
  then have "poll_asset env uploadData =
          (pre @ poll_events uploadData k called' (Some a) @ [ConsoleError ''Asset processing failed:''],
           Inl (ProcessingFailedError (or_else (ad_error_message a) ''Unknown processing error'')))"
    using run by (simp add: poll_asset_def)
  then show ?thesis
    using uploadToLivepeer_delivered [OF assms(1) assms(2)] cnt
    by (simp add: polls_performed_append polls_performed_request_upload
          polls_performed_upload_file polls_performed_poll_events)
       (simp add: polls_performed_def)
qed

text \<open>Two polls answer "processing", the third "failed" with a reason: three polls are
  made and the rejection carries the reason.\<close>

theorem uploadToLivepeer_failed_witness:
  "snd (uploadToLivepeer
          (upload_with tus_ticket TusSuccess (PutThrows fetch_failed)
             (\<lambda>k. if k < 2 then answer_with ''processing'' None None
                   else answer_with ''failed'' None (Some ''invalid video file'')))
          webm ''clip.webm'') = Inl (ProcessingFailedError ''invalid video file'') \<and>
   polls_performed (fst (uploadToLivepeer
          (upload_with tus_ticket TusSuccess (PutThrows fetch_failed)
             (\<lambda>k. if k < 2 then answer_with ''processing'' None None
                   else answer_with ''failed'' None (Some ''invalid video file'')))
          webm ''clip.webm'')) = 3"
  using uploadToLivepeer_failed
    [of "upload_with tus_ticket TusSuccess (PutThrows fetch_failed)
             (\<lambda>k. if k < 2 then answer_with ''processing'' None None
                   else answer_with ''failed'' None (Some ''invalid video file''))"
        tus_ticket webm "''clip.webm''" 2 "answer_with ''failed'' None (Some ''invalid video file'')"]
  by (simp add: request_upload_def upload_file_def tus_upload_def upload_with_def tus_ticket_def
        still_processing_def status_of_def answer_with_def)

text \<open>
  C6. A recording is started and the encoder signals the stop within the 5 seconds. If
  the handler has kept no fragment of what was emitted while recording (\<open>es\<close>) and while
  \<^verbatim>\<open>stop()\<close> waits, in particular if nothing was emitted, \<^verbatim>\<open>stop()\<close> fails with the
  empty-recording error: it returns no artifact.
\<close>

theorem VideoRecorder_stop_empty:
  assumes "VideoRecorder_start supported t0 vr0 br0 = (None, vr1, br1)" and "t0 \<noteq> 0"
    and "signal env = Stops ms" and "ms < 5000"
    and "accepted (es @ flushed env) = []"
  shows "fst (snd (VideoRecorder_stop env (fold ondataavailable es vr1) br1)) = Inl EmptyRecordingError"
  using VideoRecorder_stop_after_start [OF assms(1-4), of es] assms(5)
  by (simp add: stop_outcome_def prod_eq_iff)

text \<open>Nothing emitted at all; and a null event followed by an empty fragment.\<close>

theorem VideoRecorder_stop_empty_witness:
  "fst (snd (VideoRecorder_stop (stop_with [] toy_repair)
               (fold ondataavailable [] started_recorder) one_encoder)) =
     Inl EmptyRecordingError \<and>
   fst (snd (VideoRecorder_stop (stop_with [Some (fragment 0)] toy_repair)
               (fold ondataavailable [None] started_recorder) one_encoder)) =
     Inl EmptyRecordingError"
  using
    VideoRecorder_stop_empty
      [OF started_recorder_start, of "stop_with [] toy_repair" 40 "[]"]
    VideoRecorder_stop_empty
      [OF started_recorder_start, of "stop_with [Some (fragment 0)] toy_repair" 40 "[None]"]
  by (simp add: stop_with_def accepted_def fragment_def blob_size_def)

text \<open>
  C7, as amended. The ticket is granted. (1) When it offers a resumable endpoint, step 2
  starts with the TUS upload to it, and every pair of byte counts the TUS client reports
  is passed on to the caller as a progress report carrying the quotient
  \<^verbatim>\<open>bytesUploaded / bytesTotal\<close>; without such an endpoint no TUS upload is made.
  (2) When the TUS upload succeeds, step 2 succeeds without any direct write. (3) When it
  is not offered or fails, and the ticket offers a direct endpoint, exactly one PUT is
  made, to that endpoint, and step 2 succeeds exactly when its response is ok. (4) When
  the TUS upload is not offered or fails and no direct endpoint is offered,
  \<^verbatim>\<open>uploadToLivepeer\<close> rejects with "Upload failed"; when the PUT is answered with a
  response that is not ok, it rejects with "Upload failed: status - text"; in both cases
  no status poll is made.
\<close>

theorem upload_file_tus_then_put:
  assumes "snd (request_upload env) = Inr uploadData"
  shows
    "(ud_tusEndpoint uploadData = Some endpoint \<and> endpoint \<noteq> [] \<longrightarrow>
        (\<exists>rest. fst (upload_file env uploadData b filename) =
           [OnProgress \<lparr>phase = ''uploading'', step = Some ''Uploading...'', progress = None\<rparr>,
            TusUpload endpoint filename (if blob_type b = [] then ''video/webm'' else blob_type b)] @
           map (\<lambda>(bytesUploaded, bytesTotal).
                  OnProgress
                    \<lparr>phase = ''uploading'', step = Some ''Uploading...'',
                     progress =
                       Some (if bytesTotal = 0 then (if bytesUploaded = 0 then NaN else Infinity)
                             else Num (of_nat bytesUploaded / of_nat bytesTotal))\<rparr>)
             (tus_progress (tus env)) @
           rest)) \<and>
     (\<not> offered (ud_tusEndpoint uploadData) \<longrightarrow>
        filter is_tus (fst (upload_file env uploadData b filename)) = []) \<and>
     (tus_succeeds env uploadData \<longrightarrow>
        snd (upload_file env uploadData b filename) = Inr () \<and>
        filter is_put (fst (upload_file env uploadData b filename)) = []) \<and>
     (\<not> tus_succeeds env uploadData \<and> ud_uploadUrl uploadData = Some url \<and> url \<noteq> [] \<longrightarrow>
        filter is_put (fst (upload_file env uploadData b filename)) =
          [FetchPut url (if blob_type b = [] then ''video/webm'' else blob_type b)] \<and>
        (snd (upload_file env uploadData b filename) = Inr ()) = put_succeeds env uploadData) \<and>
     (\<not> tus_succeeds env uploadData \<and> \<not> offered (ud_uploadUrl uploadData) \<longrightarrow>
        snd (uploadToLivepeer env b filename) = Inl (UploadError NoUploadSucceeded) \<and>
        polls_performed (fst (uploadToLivepeer env b filename)) = 0) \<and>
     (\<not> tus_succeeds env uploadData \<and> offered (ud_uploadUrl uploadData) \<and>
      put env = PutResponse False st body \<longrightarrow>
        snd (uploadToLivepeer env b filename) =
          Inl (UploadError
                (PutRejected st (case body of None \<Rightarrow> ''Unknown error'' | Some t \<Rightarrow> t))) \<and>
        polls_performed (fst (uploadToLivepeer env b filename)) = 0)"
proof (intro conjI impI)
  assume "ud_tusEndpoint uploadData = Some endpoint \<and> endpoint \<noteq> []"
  then show "\<exists>rest. fst (upload_file env uploadData b filename) =
           [OnProgress \<lparr>phase = ''uploading'', step = Some ''Uploading...'', progress = None\<rparr>,
            TusUpload endpoint filename (if blob_type b = [] then ''video/webm'' else blob_type b)] @
           map (\<lambda>(bytesUploaded, bytesTotal).
                  OnProgress
                    \<lparr>phase = ''uploading'', step = Some ''Uploading...'',
                     progress =
                       Some (if bytesTotal = 0 then (if bytesUploaded = 0 then NaN else Infinity)
                             else Num (of_nat bytesUploaded / of_nat bytesTotal))\<rparr>)
             (tus_progress (tus env)) @
           rest"
    by (auto simp: upload_file_def tus_upload_eq byte_progress_def uploading_def
             split: prod.splits sum.splits)
next
  assume "\<not> offered (ud_tusEndpoint uploadData)"
  then show "filter is_tus (fst (upload_file env uploadData b filename)) = []"
    by (auto simp: upload_file_def tus_upload_eq put_upload_def uploading_def offered_truthy
             split: prod.splits sum.splits put_outcome.splits if_splits)
next
  assume t: "tus_succeeds env uploadData"
  show "snd (upload_file env uploadData b filename) = Inr ()"
    by (simp add: upload_file_tus_succeeds [OF t])
  show "filter is_put (fst (upload_file env uploadData b filename)) = []"
    by (simp add: upload_file_tus_succeeds [OF t] is_put_byte_progress uploading_def)
next
  assume h: "\<not> tus_succeeds env uploadData \<and> ud_uploadUrl uploadData = Some url \<and> url \<noteq> []"
  then have nt: "\<not> tus_succeeds env uploadData"
    and u: "ud_uploadUrl uploadData = Some url" "url \<noteq> []"
    by simp_all
  show "filter is_put (fst (upload_file env uploadData b filename)) =
          [FetchPut url (if blob_type b = [] then ''video/webm'' else blob_type b)]"
    using put_upload_offered [OF u, of env b]
    by (simp add: upload_file_fallback [OF nt] is_put_tus_upload)
  show "(snd (upload_file env uploadData b filename) = Inr ()) = put_succeeds env uploadData"
    using put_upload_offered [OF u, of env b]
    by (auto simp: upload_file_fallback [OF nt] split: sum.splits)
next
  assume h: "\<not> tus_succeeds env uploadData \<and> \<not> offered (ud_uploadUrl uploadData)"
  then have f: "snd (upload_file env uploadData b filename) = Inl (UploadError NoUploadSucceeded)"
    by (simp add: upload_file_fallback put_upload_not_offered)
  have whole: "uploadToLivepeer env b filename =
          (fst (request_upload env) @ fst (upload_file env uploadData b filename),
           Inl (UploadError NoUploadSucceeded))"
    by (rule uploadToLivepeer_not_delivered [OF assms f])
  show "snd (uploadToLivepeer env b filename) = Inl (UploadError NoUploadSucceeded)"
    by (simp add: whole)
  show "polls_performed (fst (uploadToLivepeer env b filename)) = 0"
    by (simp add: whole polls_performed_append polls_performed_request_upload
          polls_performed_upload_file)
next
  assume h: "\<not> tus_succeeds env uploadData \<and> offered (ud_uploadUrl uploadData) \<and>
             put env = PutResponse False st body"
  then have f: "snd (upload_file env uploadData b filename) =
     Inl (UploadError (PutRejected st (case body of None \<Rightarrow> ''Unknown error'' | Some t \<Rightarrow> t)))"
    using put_upload_rejected [of uploadData env st body b]
    by (simp add: upload_file_fallback)
  have whole: "uploadToLivepeer env b filename =
          (fst (request_upload env) @ fst (upload_file env uploadData b filename),
           Inl (UploadError
                 (PutRejected st (case body of None \<Rightarrow> ''Unknown error'' | Some t \<Rightarrow> t))))"
    by (rule uploadToLivepeer_not_delivered [OF assms f])
  show "snd (uploadToLivepeer env b filename) =
          Inl (UploadError
                (PutRejected st (case body of None \<Rightarrow> ''Unknown error'' | Some t \<Rightarrow> t)))"
    by (simp add: whole)
  show "polls_performed (fst (uploadToLivepeer env b filename)) = 0"
    by (simp add: whole polls_performed_append polls_performed_request_upload
          polls_performed_upload_file)
qed

text \<open>A TUS upload that succeeds, its byte counts 50 of 100 and 100 of 100 passed on as
  the progress 1/2 and 1; a ticket with a direct endpoint only; a failed TUS upload
  followed by one PUT that succeeds; a failed TUS upload with no direct endpoint; and a
  failed TUS upload followed by a PUT answered with status 500.\<close>

theorem upload_file_tus_then_put_witness:
  "fst (upload_file
          (upload_with tus_ticket TusSuccess (PutThrows fetch_failed)
             (\<lambda>k. answer_with ''ready'' None None))
          tus_ticket webm ''clip.webm'') =
     [OnProgress \<lparr>phase = ''uploading'', step = Some ''Uploading...'', progress = None\<rparr>,
      TusUpload ''https://tus.example/files'' ''clip.webm'' ''video/webm'',
      OnProgress \<lparr>phase = ''uploading'', step = Some ''Uploading...'',
                  progress = Some (Num (1 / 2))\<rparr>,
      OnProgress \<lparr>phase = ''uploading'', step = Some ''Uploading...'',
                  progress = Some (Num 1)\<rparr>] \<and>
   snd (upload_file
          (upload_with tus_ticket TusSuccess (PutThrows fetch_failed)
             (\<lambda>k. answer_with ''ready'' None None))
          tus_ticket webm ''clip.webm'') = Inr () \<and>
   filter is_tus
     (fst (upload_file
            (upload_with put_ticket TusSuccess (PutResponse True 200 None)
               (\<lambda>k. answer_with ''ready'' None None))
            put_ticket webm ''clip.webm'')) = [] \<and>
   filter is_put
     (fst (upload_file
            (upload_with both_ticket (TusError None) (PutResponse True 200 None)
               (\<lambda>k. answer_with ''ready'' None None))
            both_ticket webm ''clip.webm'')) =
     [FetchPut ''https://put.example/file'' ''video/webm''] \<and>
   snd (upload_file
          (upload_with both_ticket (TusError None) (PutResponse True 200 None)
             (\<lambda>k. answer_with ''ready'' None None))
          both_ticket webm ''clip.webm'') = Inr () \<and>
   snd (uploadToLivepeer
          (upload_with tus_ticket (TusError None) (PutResponse True 200 None)
             (\<lambda>k. answer_with ''ready'' None None))
          webm ''clip.webm'') = Inl (UploadError NoUploadSucceeded) \<and>
   snd (uploadToLivepeer
          (upload_with both_ticket (TusError None) (PutResponse False 500 (Some ''no''))
             (\<lambda>k. answer_with ''ready'' None None))
          webm ''clip.webm'') = Inl (UploadError (PutRejected 500 ''no'')) \<and>
   polls_performed
     (fst (uploadToLivepeer
            (upload_with both_ticket (TusError None) (PutResponse False 500 (Some ''no''))
               (\<lambda>k. answer_with ''ready'' None None))
            webm ''clip.webm'')) = 0"
  using
    upload_file_tus_then_put
      [where env = "upload_with tus_ticket TusSuccess (PutThrows fetch_failed)
               (\<lambda>k. answer_with ''ready'' None None)"
         and uploadData = tus_ticket and b = webm and filename = "''clip.webm''"
         and endpoint = "''https://tus.example/files''"]
    upload_file_tus_then_put
      [where env = "upload_with put_ticket TusSuccess (PutResponse True 200 None)
               (\<lambda>k. answer_with ''ready'' None None)"
         and uploadData = put_ticket and b = webm and filename = "''clip.webm''"]
    upload_file_tus_then_put
      [where env = "upload_with both_ticket (TusError None) (PutResponse True 200 None)
               (\<lambda>k. answer_with ''ready'' None None)"
         and uploadData = both_ticket and b = webm and filename = "''clip.webm''"
         and url = "''https://put.example/file''"]
    upload_file_tus_then_put
      [where env = "upload_with tus_ticket (TusError None) (PutResponse True 200 None)
               (\<lambda>k. answer_with ''ready'' None None)"
         and uploadData = tus_ticket and b = webm and filename = "''clip.webm''"]
    upload_file_tus_then_put
      [where env = "upload_with both_ticket (TusError None) (PutResponse False 500 (Some ''no''))
               (\<lambda>k. answer_with ''ready'' None None)"
         and uploadData = both_ticket and b = webm and filename = "''clip.webm''"
         and st = 500 and body = "Some ''no''"]
  by (simp add: request_upload_def upload_file_def tus_upload_def put_upload_def upload_with_def
        tus_ticket_def put_ticket_def both_ticket_def tus_succeeds_def put_succeeds_def
        offered_def js_div_def webm_def uploadToLivepeer_def polls_performed_def
        uploading_def)

text \<open>
  C7 as stated fails where the direct write fails by an exception of \<^verbatim>\<open>fetch\<close>: the
  call of \<^verbatim>\<open>fetch\<close> stands in no \<^verbatim>\<open>try\<close>, so after a failed TUS upload and one PUT
  that cannot be sent, neither upload has succeeded, yet \<^verbatim>\<open>uploadToLivepeer\<close>
  rejects with the exception of \<^verbatim>\<open>fetch\<close> as it is, not with an upload error.
\<close>

theorem upload_file_tus_then_put_counterexample:
  "\<not> tus_succeeds
       (upload_with both_ticket (TusError None) (PutThrows fetch_failed)
          (\<lambda>k. answer_with ''ready'' None None))
       both_ticket \<and>
   \<not> put_succeeds
       (upload_with both_ticket (TusError None) (PutThrows fetch_failed)
          (\<lambda>k. answer_with ''ready'' None None))
       both_ticket \<and>
   filter is_put
     (fst (uploadToLivepeer
            (upload_with both_ticket (TusError None) (PutThrows fetch_failed)
               (\<lambda>k. answer_with ''ready'' None None))
            webm ''clip.webm'')) =
     [FetchPut ''https://put.example/file'' ''video/webm''] \<and>
   snd (uploadToLivepeer
          (upload_with both_ticket (TusError None) (PutThrows fetch_failed)
             (\<lambda>k. answer_with ''ready'' None None))
          webm ''clip.webm'') = Inl (Rethrown fetch_failed) \<and>
   (\<forall>f. snd (uploadToLivepeer
          (upload_with both_ticket (TusError None) (PutThrows fetch_failed)
             (\<lambda>k. answer_with ''ready'' None None))
          webm ''clip.webm'') \<noteq> Inl (UploadError f))"
  by (simp add: request_upload_def upload_file_def tus_upload_def put_upload_def upload_with_def
        both_ticket_def tus_succeeds_def put_succeeds_def offered_def webm_def
        uploadToLivepeer_def uploading_def)

text \<open>
  C8. A recording is started, the encoder signals the stop within the 5 seconds, and the
  blob built from the kept fragments has at least 1000 bytes. If the repair fails,
  \<^verbatim>\<open>stop()\<close> logs the failure with \<^verbatim>\<open>console.error\<close> and still returns: the
  unrepaired blob, the measured time and the format.
\<close>

theorem VideoRecorder_stop_repair_fails:
  assumes "VideoRecorder_start supported t0 vr0 br0 = (None, vr1, br1)" and "t0 \<noteq> 0"
    and "signal env = Stops ms" and "ms < 5000"
    and "accepted (es @ flushed env) = cs"
    and "1000 \<le> blob_size (new_Blob cs (mimeType vr1))"
    and "fixWebmDuration env (new_Blob cs (mimeType vr1)) (now env - t0) = None"
  shows "fst (VideoRecorder_stop env (fold ondataavailable es vr1) br1) =
           [ConsoleError ''Failed to fix WebM duration (proceeding anyway):''] \<and>
         fst (snd (VideoRecorder_stop env (fold ondataavailable es vr1) br1)) =
           Inr \<lparr>rr_blob = new_Blob cs (mimeType vr1), rr_durationMs = now env - t0,
                rr_mimeType = mimeType vr1\<rparr>"
proof -
  have "cs \<noteq> []"
    using assms(6) by (auto simp: new_Blob_def blob_size_def)
  then show ?thesis
    using VideoRecorder_stop_after_start [OF assms(1-4), of es] assms(5-7)
    by (simp add: stop_outcome_def prod_eq_iff)
qed

text \<open>Fragments of 600 and 500 bytes and a repair that fails.\<close>

theorem VideoRecorder_stop_repair_fails_witness:
  "fst (VideoRecorder_stop (stop_with [Some (fragment 500)] (\<lambda>b d. None))
          (fold ondataavailable [Some (fragment 600)] started_recorder) one_encoder) =
     [ConsoleError ''Failed to fix WebM duration (proceeding anyway):''] \<and>
   fst (snd (VideoRecorder_stop (stop_with [Some (fragment 500)] (\<lambda>b d. None))
               (fold ondataavailable [Some (fragment 600)] started_recorder) one_encoder)) =
     Inr \<lparr>rr_blob = new_Blob [fragment 600, fragment 500] ''video/webm'',
          rr_durationMs = 5000, rr_mimeType = ''video/webm''\<rparr>"
  using
    VideoRecorder_stop_repair_fails
      [OF started_recorder_start, of "stop_with [Some (fragment 500)] (\<lambda>b d. None)" 40
          "[Some (fragment 600)]" "[fragment 600, fragment 500]"]
  by (simp add: stop_with_def accepted_def fragment_def blob_size_def new_Blob_def
        started_recorder_def)

text \<open>
  C9. \<^verbatim>\<open>updateDaydreamPromptsWithRetry\<close> never rejects, whatever the calls of
  \<^verbatim>\<open>updateDaydreamPrompts\<close> answer. With its default arguments it calls again, after a wait of
  1000 ms, only after an error it takes for "not ready"; the loop runs at most 10 times, so there are
  at most 10 calls and 9 waits. With \<open>k < 10\<close> "not ready" errors before the first other
  answer, it makes \<open>k + 1\<close> calls and returns: silently when call \<open>k\<close> succeeds, with a
  logged error and warning when call \<open>k\<close> fails otherwise. With 10 "not ready" errors it
  makes 10 calls, logs a warning and returns. \<^verbatim>\<open>createDaydreamStream\<close> resolves with
  the stream the edge function answered, whatever the background update does.
\<close>

theorem createDaydreamStream_background_update:
  "snd (updateDaydreamPromptsWithRetry answers maxRetries delayMs) = Inr () \<and>
   (k < 10 \<and> not_ready_before answers k \<and> answers k = None \<longrightarrow>
      fst (updateDaydreamPromptsWithRetry answers 10 1000) = update_calls k) \<and>
   (k < 10 \<and> not_ready_before answers k \<and> answers k = Some e \<and> \<not> isNotReadyError e \<longrightarrow>
      fst (updateDaydreamPromptsWithRetry answers 10 1000) =
        update_calls k @
        [ConsoleError ''Non-retryable error updating stream params:'',
         ConsoleWarn ''Stream will use default parameters'']) \<and>
   (not_ready_before answers 10 \<longrightarrow>
      fst (updateDaydreamPromptsWithRetry answers 10 1000) =
        update_calls 9 @ [ConsoleWarn ''Failed to update initial stream params after retries'']) \<and>
   (error answer = None \<and> data answer = Some stream \<longrightarrow>
      fst (snd (createDaydreamStream answer initialParams answers)) = Inr stream)"
proof (intro conjI impI)
  show "snd (updateDaydreamPromptsWithRetry answers maxRetries delayMs) = Inr ()"
    by (simp add: updateDaydreamPromptsWithRetry_def retry_loop_returns)
next
  assume h: "k < 10 \<and> not_ready_before answers k \<and> answers k = None"
  then have "retry_loop answers 10 1000 0 =
     (concat (map (attempt_events 1000) [0..<k]) @ fst (retry_loop answers 10 1000 k),
      snd (retry_loop answers 10 1000 k))"
    by (intro retry_loop_run) (auto dest: not_ready_beforeD)
  moreover have "retry_loop answers 10 1000 k = (attempt_events 1000 k, Inr ())"
    using h by (simp add: retry_loop_success)
  ultimately show "fst (updateDaydreamPromptsWithRetry answers 10 1000) = update_calls k"
    using attempts_update_calls [of k] by (simp add: updateDaydreamPromptsWithRetry_def)
next
  assume h: "k < 10 \<and> not_ready_before answers k \<and> answers k = Some e \<and> \<not> isNotReadyError e"
  then have "retry_loop answers 10 1000 0 =
     (concat (map (attempt_events 1000) [0..<k]) @ fst (retry_loop answers 10 1000 k),
      snd (retry_loop answers 10 1000 k))"
    by (intro retry_loop_run) (auto dest: not_ready_beforeD)
  moreover have "retry_loop answers 10 1000 k =
     (attempt_events 1000 k @
        [ConsoleError ''Non-retryable error updating stream params:'',
         ConsoleWarn ''Stream will use default parameters''], Inr ())"
    using h by (simp add: retry_loop_other)
  ultimately show "fst (updateDaydreamPromptsWithRetry answers 10 1000) =
        update_calls k @
        [ConsoleError ''Non-retryable error updating stream params:'',
         ConsoleWarn ''Stream will use default parameters'']"
    using attempts_update_calls [of k] by (simp add: updateDaydreamPromptsWithRetry_def)
next
  assume h: "not_ready_before answers 10"
  then have "retry_loop answers 10 1000 0 =
     (concat (map (attempt_events 1000) [0..<10]) @ fst (retry_loop answers 10 1000 10),
      snd (retry_loop answers 10 1000 10))"
    by (intro retry_loop_run) (auto dest: not_ready_beforeD)
  moreover have "retry_loop answers 10 1000 10 =
     ([ConsoleWarn ''Failed to update initial stream params after retries''], Inr ())"
    by (simp add: retry_loop_exhausted)
  moreover have "concat (map (attempt_events 1000) [0..<10]) = update_calls 9"
    using attempts_update_calls [of 9] by (simp add: eval_nat_numeral)
  ultimately show "fst (updateDaydreamPromptsWithRetry answers 10 1000) =
        update_calls 9 @ [ConsoleWarn ''Failed to update initial stream params after retries'']"
    by (simp add: updateDaydreamPromptsWithRetry_def)
next
  assume "error answer = None \<and> data answer = Some stream"
  then show "fst (snd (createDaydreamStream answer initialParams answers)) = Inr stream"
    by (simp add: createDaydreamStream_def split: prod.splits)
qed

theorem createDaydreamStream_background_update_witness:
  "fst (updateDaydreamPromptsWithRetry (\<lambda>n. if n < 2 then Some not_ready_error else None) 10 1000) =
     [Invoke ''daydream-prompt'', Wait 1000, Invoke ''daydream-prompt'',
      Wait 1000, Invoke ''daydream-prompt''] \<and>
   snd (updateDaydreamPromptsWithRetry (\<lambda>n. if n < 2 then Some not_ready_error else None) 10 1000) = Inr () \<and>
   fst (updateDaydreamPromptsWithRetry (\<lambda>n. Some other_error) 10 1000) =
     [Invoke ''daydream-prompt'',
      ConsoleError ''Non-retryable error updating stream params:'',
      ConsoleWarn ''Stream will use default parameters''] \<and>
   length (filter (\<lambda>e. e = Invoke ''daydream-prompt'')
             (fst (updateDaydreamPromptsWithRetry (\<lambda>n. Some not_ready_error) 10 1000))) = 10 \<and>
   length (filter (\<lambda>e. e = Wait 1000)
             (fst (updateDaydreamPromptsWithRetry (\<lambda>n. Some not_ready_error) 10 1000))) = 9 \<and>
   fst (snd (createDaydreamStream
               \<lparr>data = Some \<lparr>stream_id = ''s1'', output_playback_id = ''p1'', whip_url = ''w1''\<rparr>,
                error = None\<rparr>
               True (\<lambda>n. Some not_ready_error))) =
     Inr \<lparr>stream_id = ''s1'', output_playback_id = ''p1'', whip_url = ''w1''\<rparr>"
  using
    createDaydreamStream_background_update
      [where answers = "\<lambda>n. if n < 2 then Some not_ready_error else None" and k = 2
         and maxRetries = 10 and delayMs = 1000]
    createDaydreamStream_background_update
      [where answers = "\<lambda>n. Some other_error" and k = 0 and e = other_error]
    createDaydreamStream_background_update
      [where answers = "\<lambda>n. Some not_ready_error" and initialParams = True
         and answer =
           "\<lparr>data = Some \<lparr>stream_id = ''s1'', output_playback_id = ''p1'', whip_url = ''w1''\<rparr>,
             error = None\<rparr>"
         and stream = "\<lparr>stream_id = ''s1'', output_playback_id = ''p1'', whip_url = ''w1''\<rparr>"]
  by (simp add: not_ready_before_def not_ready_at_def isNotReadyError_def update_calls_def
        not_ready_error_def other_error_def eval_nat_numeral)

end
